theory Spec2Isabelle
  imports Main "HOL-Library.Word" "HOL-Library.List_Lexorder" "HOL-Library.Multiset"
begin

unbundle bit_operations_syntax

section \<open>Codec: C strings and fixed-width integers as bytes\<close>

text \<open>
  The accessors of \<^verbatim>\<open>mdb.c\<close> hand the engine pairs of a pointer and a size
  (\<^verbatim>\<open>MDB_val\<close>). A pointer is modelled by the bytes of the memory it points to: for a
  \<^verbatim>\<open>char *\<close> that is the text followed by its terminating zero byte, for
  \<^verbatim>\<open>&k\<close> with \<^verbatim>\<open>int k\<close> the four bytes of \<^verbatim>\<open>k\<close>. The engine reads
  \<^verbatim>\<open>mv_size\<close> bytes from \<^verbatim>\<open>mv_data\<close>.
\<close>

type_synonym byte = "8 word"

record MDB_val =
  mv_size :: nat
  mv_data :: "byte list"

definition val_bytes :: "MDB_val \<Rightarrow> byte list" where
  "val_bytes v = take (mv_size v) (mv_data v)"

text \<open>\<^verbatim>\<open>strlen\<close>: the number of bytes before the first zero byte.\<close>

definition strlen :: "byte list \<Rightarrow> nat" where
  "strlen k = length (takeWhile (\<lambda>b. b \<noteq> 0) k)"

text \<open>The text a \<^verbatim>\<open>char *\<close> denotes: the bytes before the terminator.\<close>

definition c_text :: "byte list \<Rightarrow> byte list" where
  "c_text k = takeWhile (\<lambda>b. b \<noteq> 0) k"

text \<open>
  Native-endian fixed-width integers; the byte order is the little-endian one of the
  platforms the program is built for. Only the width and the round trip matter below.
\<close>

fun le_bytes :: "nat \<Rightarrow> 'a::len word \<Rightarrow> byte list" where
  "le_bytes 0 w = []"
| "le_bytes (Suc n) w = ucast w # le_bytes n (drop_bit 8 w)"

fun le_word :: "byte list \<Rightarrow> 'a::len word" where
  "le_word [] = 0"
| "le_word (b # bs) = ucast b OR push_bit 8 (le_word bs)"

text \<open>The memory of an \<^verbatim>\<open>int\<close> and of a \<^verbatim>\<open>uint64_t\<close> variable.\<close>

definition int_bytes :: "32 word \<Rightarrow> byte list" where
  "int_bytes w = le_bytes 4 w"

definition u64_bytes :: "64 word \<Rightarrow> byte list" where
  "u64_bytes w = le_bytes 8 w"

text \<open>\<^verbatim>\<open>*(int *) p\<close> and \<^verbatim>\<open>*(uint64_t *) p\<close>: the first four (eight) bytes at \<^verbatim>\<open>p\<close>.\<close>

definition deref_int :: "byte list \<Rightarrow> 32 word" where
  "deref_int p = le_word (take 4 p)"

definition deref_u64 :: "byte list \<Rightarrow> 64 word" where
  "deref_u64 p = le_word (take 8 p)"

section \<open>The key-value engine\<close>

text \<open>
  Modelled from the spec: the engine (\<^verbatim>\<open>deps/liblmdb\<close>) is not part of the sources at
  hand. The spec assumes it provides named sub-tables within one environment, get and put
  keyed by raw byte strings within a transaction, cursor iteration in ascending key order
  and an entry count. A table is the list of its entries in ascending key order (byte
  strings compared lexicographically); a transaction works on a copy of the environment
  that its commit installs. Resource exhaustion is not modelled: the return code is 0
  except where a key is not found.
\<close>

type_synonym MDB_dbi = nat

type_synonym table = "(byte list \<times> byte list) list"

record MDB_env =
  me_names :: "(string \<times> MDB_dbi) list"
  me_dbs :: "MDB_dbi \<Rightarrow> table"

type_synonym MDB_txn = MDB_env

type_synonym MDB_cursor = table

definition MDB_NOTFOUND :: int where
  "MDB_NOTFOUND = - 30798"

definition MDB_KEYEXIST :: int where
  "MDB_KEYEXIST = - 30799"

definition MDB_NOOVERWRITE :: nat where
  "MDB_NOOVERWRITE = 16"

definition MDB_CREATE :: nat where
  "MDB_CREATE = 262144"

text \<open>Modelled from the spec: transaction begin and commit of the absent engine.\<close>

definition mdb_txn_begin :: "MDB_env \<Rightarrow> int \<times> MDB_txn" where
  "mdb_txn_begin e = (0, e)"

definition mdb_txn_commit :: "MDB_txn \<Rightarrow> int \<times> MDB_env" where
  "mdb_txn_commit txn = (0, txn)"

text \<open>Modelled from the spec: the engine's full-durability barrier; the contents stay.\<close>

definition mdb_env_sync :: "MDB_env \<Rightarrow> nat \<Rightarrow> int" where
  "mdb_env_sync e force = 0"

text \<open>Modelled from the spec: get of the absent engine, by the key's \<^verbatim>\<open>mv_size\<close> bytes.\<close>

definition mdb_get :: "MDB_txn \<Rightarrow> MDB_dbi \<Rightarrow> MDB_val \<Rightarrow> int \<times> MDB_val" where
  "mdb_get txn dbi k =
     (case map_of (me_dbs txn dbi) (val_bytes k) of
        None \<Rightarrow> (MDB_NOTFOUND, \<lparr>mv_size = 0, mv_data = []\<rparr>)
      | Some d \<Rightarrow> (0, \<lparr>mv_size = length d, mv_data = d\<rparr>))"

text \<open>
  Modelled from the spec: put of the absent engine. An entry with the key is replaced in
  place, a new key enters at its place in the key order.
\<close>

fun tbl_put :: "byte list \<Rightarrow> byte list \<Rightarrow> table \<Rightarrow> table" where
  "tbl_put k d [] = [(k, d)]"
| "tbl_put k d ((k', d') # t) =
     (if k = k' then (k, d) # t
      else if k < k' then (k, d) # (k', d') # t
      else (k', d') # tbl_put k d t)"

text \<open>
  With flags 0, the only value \<^verbatim>\<open>mdb.c\<close> passes, put enters the pair and replaces an
  existing one: the accumulate and insert-or-replace operations of the spec write back
  over an existing key with this very call.
\<close>

definition mdb_put :: "MDB_txn \<Rightarrow> MDB_dbi \<Rightarrow> MDB_val \<Rightarrow> MDB_val \<Rightarrow> nat \<Rightarrow> int \<times> MDB_txn" where
  "mdb_put txn dbi k d flags =
     (if flags = MDB_NOOVERWRITE \<and> map_of (me_dbs txn dbi) (val_bytes k) \<noteq> None
      then (MDB_KEYEXIST, txn)
      else (0, txn\<lparr>me_dbs := (me_dbs txn)(dbi := tbl_put (val_bytes k) (val_bytes d) (me_dbs txn dbi))\<rparr>))"

text \<open>Modelled from the spec: the entry count of the absent engine's stat query.\<close>

record MDB_stat =
  ms_entries :: "64 word"

definition mdb_stat :: "MDB_txn \<Rightarrow> MDB_dbi \<Rightarrow> int \<times> MDB_stat" where
  "mdb_stat txn dbi = (0, \<lparr>ms_entries = word_of_nat (length (me_dbs txn dbi))\<rparr>)"

text \<open>
  Modelled from the spec: cursors of the absent engine. A cursor is the list of the
  entries still to come, in ascending key order.
\<close>

definition mdb_cursor_open :: "MDB_txn \<Rightarrow> MDB_dbi \<Rightarrow> int \<times> MDB_cursor" where
  "mdb_cursor_open txn dbi = (0, me_dbs txn dbi)"

text \<open>Modelled from the spec: open-or-create of a named sub-table of the absent engine.\<close>

definition fresh_dbi :: "(string \<times> MDB_dbi) list \<Rightarrow> MDB_dbi" where
  "fresh_dbi ns = Suc (fold max (map snd ns) 0)"

definition mdb_dbi_open :: "MDB_txn \<Rightarrow> string \<Rightarrow> nat \<Rightarrow> int \<times> MDB_dbi \<times> MDB_txn" where
  "mdb_dbi_open txn nm flags =
     (case map_of (me_names txn) nm of
        Some d \<Rightarrow> (0, d, txn)
      | None \<Rightarrow>
          if flags = MDB_CREATE
          then (0, fresh_dbi (me_names txn),
                txn\<lparr>me_names := me_names txn @ [(nm, fresh_dbi (me_names txn))],
                    me_dbs := (me_dbs txn)(fresh_dbi (me_names txn) := [])\<rparr>)
          else (MDB_NOTFOUND, 0, txn))"

section \<open>The table registry\<close>

text \<open>
  The metrics, in the order of the table of \<^verbatim>\<open>init_tables\<close>. \<^verbatim>\<open>GSMetric\<close> and
  \<^verbatim>\<open>GModule\<close> are declared in headers that are not at hand.
\<close>

datatype GSMetric =
    MTRC_KEYMAP | MTRC_ROOTMAP | MTRC_DATAMAP | MTRC_UNIQMAP | MTRC_ROOT | MTRC_HITS
  | MTRC_VISITORS | MTRC_BW | MTRC_CUMTS | MTRC_MAXTS | MTRC_METHODS | MTRC_PROTOCOLS
  | MTRC_AGENTS | MTRC_METADATA

text \<open>
  Modelled from the spec: \<^verbatim>\<open>GModule\<close> (\<^verbatim>\<open>commons.h\<close>) is a closed enumeration of
  analysis modules. \<^verbatim>\<open>mdb.c\<close> names one of them, \<^verbatim>\<open>VISITORS\<close>; the others are
  \<open>Module i\<close>.
\<close>

datatype GModule = VISITORS | Module nat

text \<open>Modelled from the spec: the module index that names the tables of a module.\<close>

fun module_index :: "GModule \<Rightarrow> nat" where
  "module_index VISITORS = 0"
| "module_index (Module i) = Suc i"

record GLMDBStorageMetric =
  metric :: GSMetric
  dbname :: "string option"
  store :: "MDB_dbi option"

record GLMDBStorage =
  module :: GModule
  metrics :: "GLMDBStorageMetric list"

text \<open>
  \<^verbatim>\<open>db_storage\<close> is an array of \<^verbatim>\<open>GLMDBStorage\<close> indexed by module; the
  \<^verbatim>\<open>env\<close> of its first element is the one environment of the process.
\<close>

record GLMDBStorageArray =
  env :: MDB_env
  modules :: "GModule \<Rightarrow> GLMDBStorage"

text \<open>The static variables of \<^verbatim>\<open>mdb.c\<close>; a null pointer is \<open>None\<close>.\<close>

record gstate =
  db_storage :: "GLMDBStorageArray option"
  ht_agent_keys :: "MDB_dbi option"
  ht_agent_vals :: "MDB_dbi option"
  ht_general_stats :: "MDB_dbi option"
  ht_hostnames :: "MDB_dbi option"
  ht_unique_keys :: "MDB_dbi option"

text \<open>The state of a process that has not called \<^verbatim>\<open>ginit_storage\<close>.\<close>

definition uninitialized :: gstate where
  "uninitialized =
     \<lparr>db_storage = None, ht_agent_keys = None, ht_agent_vals = None,
      ht_general_stats = None, ht_hostnames = None, ht_unique_keys = None\<rparr>"

text \<open>
  The ways the process ends: \<^verbatim>\<open>FATAL\<close> with its message, a null pointer dereferenced,
  a write past the end of an allocated array.
\<close>

datatype abort = FATAL string | SIGSEGV | HEAP_OVERFLOW

definition GSMTRC_TOTAL :: nat where
  "GSMTRC_TOTAL = 14"

text \<open>\<^verbatim>\<open>xcalloc\<close> zeroes the array: every enumeration field is its first value, every pointer null.\<close>

definition new_storage :: "MDB_env \<Rightarrow> GLMDBStorageArray" where
  "new_storage e =
     \<lparr>env = e,
      modules = (\<lambda>m. \<lparr>module = VISITORS,
                      metrics = replicate GSMTRC_TOTAL
                                  \<lparr>metric = MTRC_KEYMAP, dbname = None, store = None\<rparr>\<rparr>)\<rparr>"

fun digits10 :: "nat \<Rightarrow> string" where
  "digits10 n =
     (if n < 10 then [''0123456789'' ! n]
      else digits10 (n div 10) @ [''0123456789'' ! (n mod 10)])"

definition get_dbname :: "string \<Rightarrow> GModule \<Rightarrow> string" where
  "get_dbname nm m = nm @ ''-m'' @ digits10 (module_index m)"

definition txn_begin :: "gstate \<Rightarrow> abort + MDB_txn" where
  "txn_begin s =
     (case db_storage s of
        None \<Rightarrow> Inl SIGSEGV
      | Some st \<Rightarrow>
          (case mdb_txn_begin (env st) of
             (rc, txn) \<Rightarrow>
               if rc \<noteq> 0 then Inl (FATAL ''Unable to begin transaction'') else Inr txn))"

definition txn_commit :: "MDB_txn \<Rightarrow> gstate \<Rightarrow> abort + (int \<times> gstate)" where
  "txn_commit txn s =
     (case mdb_txn_commit txn of
        (rc, e) \<Rightarrow>
          if rc \<noteq> 0 then Inl (FATAL ''Unable to start transaction'')
          else Inr (0, s\<lparr>db_storage := map_option (\<lambda>st. st\<lparr>env := e\<rparr>) (db_storage s)\<rparr>))"

text \<open>
  Modelled from the spec: creating, sizing and opening an environment of the absent
  engine. An environment that is not open yet holds its limits; opening it at a directory
  gives the tables stored there. What a directory holds is a parameter (\<open>disk\<close>:
  \<open>None\<close> where the engine finds nothing it can open).
\<close>

record MDB_env_new =
  en_maxdbs :: nat
  en_mapsize :: nat

definition mdb_env_create :: "int \<times> MDB_env_new" where
  "mdb_env_create = (0, \<lparr>en_maxdbs = 0, en_mapsize = 0\<rparr>)"

definition mdb_env_set_maxdbs :: "MDB_env_new \<Rightarrow> nat \<Rightarrow> int \<times> MDB_env_new" where
  "mdb_env_set_maxdbs e dbs = (0, e\<lparr>en_maxdbs := dbs\<rparr>)"

definition mdb_env_set_mapsize :: "MDB_env_new \<Rightarrow> nat \<Rightarrow> int \<times> MDB_env_new" where
  "mdb_env_set_mapsize e sz = (0, e\<lparr>en_mapsize := sz\<rparr>)"

definition ENOENT :: int where
  "ENOENT = 2"

definition mdb_env_open ::
  "(string \<Rightarrow> MDB_env option) \<Rightarrow> MDB_env_new \<Rightarrow> string \<Rightarrow> nat \<Rightarrow> nat \<Rightarrow> int \<times> MDB_env" where
  "mdb_env_open disk e path flags mode =
     (case disk path of
        None \<Rightarrow> (ENOENT, \<lparr>me_names = [], me_dbs = (\<lambda>d. [])\<rparr>)
      | Some opened \<Rightarrow> (0, opened))"

text \<open>The constants of \<^verbatim>\<open>mdb.h\<close>, and the two of the system headers that are used.\<close>

definition LMDB_DBPATH :: string where
  "LMDB_DBPATH = ''/tmp''"

definition LMDB_DB_SIZE :: nat where
  "LMDB_DB_SIZE = 100000 * (1024 * 1024)"

definition LMDB_ENV_MAX_DBS :: nat where
  "LMDB_ENV_MAX_DBS = 256"

definition MDB_NOSYNC :: nat where
  "MDB_NOSYNC = 65536"

definition S_IFDIR :: "32 word" where
  "S_IFDIR = 16384"

text \<open>
  \<^verbatim>\<open>set_env_path\<close>: \<open>db_path\<close> is the configured path (\<^verbatim>\<open>conf.db_path\<close>, null when
  not configured), \<open>fs\<close> gives the \<^verbatim>\<open>st_mode\<close> that \<^verbatim>\<open>stat\<close> finds for a path and
  \<open>None\<close> where \<^verbatim>\<open>stat\<close> fails.
\<close>

definition set_env_path :: "string option \<Rightarrow> (string \<Rightarrow> 32 word option) \<Rightarrow> abort + string" where
  "set_env_path db_path fs =
     (let path = (case db_path of None \<Rightarrow> LMDB_DBPATH | Some p \<Rightarrow> p) in
      case fs path of
        None \<Rightarrow> Inl (FATAL ''Unable to access database path'')
      | Some st_mode \<Rightarrow>
          if st_mode AND S_IFDIR = 0 then Inl (FATAL ''Database path is not a directory.'')
          else Inr path)"

definition create_environment ::
  "string option \<Rightarrow> (string \<Rightarrow> 32 word option) \<Rightarrow> (string \<Rightarrow> MDB_env option)
     \<Rightarrow> abort + MDB_env" where
  "create_environment db_path fs disk =
     (case mdb_env_create of
        (rc, e) \<Rightarrow>
          if rc \<noteq> 0 then Inl (FATAL ''Unable to create DB environment'')
          else
     (case mdb_env_set_maxdbs e LMDB_ENV_MAX_DBS of
        (rc, e1) \<Rightarrow>
          if rc \<noteq> 0 then Inl (FATAL ''Unable to set environment max db'')
          else
     (case mdb_env_set_mapsize e1 LMDB_DB_SIZE of
        (rc, e2) \<Rightarrow>
          if rc \<noteq> 0 then Inl (FATAL ''Unable to set env map size'')
          else
     (case set_env_path db_path fs of
        Inl a \<Rightarrow> Inl a
      | Inr path \<Rightarrow>
     (case mdb_env_open disk e2 path MDB_NOSYNC 436 of
        (rc, opened) \<Rightarrow>
          if rc \<noteq> 0 then Inl (FATAL ''Unable to open environment'') else Inr opened)))))"

definition create_datebase :: "MDB_txn \<Rightarrow> string \<Rightarrow> nat \<Rightarrow> abort + (MDB_dbi option \<times> MDB_txn)" where
  "create_datebase txn nm flags =
     (case mdb_dbi_open txn nm flags of
        (rc, dbi, txn') \<Rightarrow>
          if rc \<noteq> 0 then Inl (FATAL ''Unable to open database'') else Inr (Some dbi, txn'))"

definition metrics_table :: "(GSMetric \<times> string) list" where
  "metrics_table =
     [(MTRC_KEYMAP, ''db_keymap''), (MTRC_ROOTMAP, ''db_rootmap''),
      (MTRC_DATAMAP, ''db_datamap''), (MTRC_UNIQMAP, ''db_uniqmap''),
      (MTRC_ROOT, ''db_root''), (MTRC_HITS, ''db_hits''),
      (MTRC_VISITORS, ''db_visitors''), (MTRC_BW, ''db_bw''),
      (MTRC_CUMTS, ''db_cumts''), (MTRC_MAXTS, ''db_maxts''),
      (MTRC_METHODS, ''db_methods''), (MTRC_PROTOCOLS, ''db_protocols''),
      (MTRC_AGENTS, ''db_agents''), (MTRC_METADATA, ''db_metadata'')]"

text \<open>The loop of \<^verbatim>\<open>init_tables\<close> over the rows still to do, \<open>i\<close> the index of the next.\<close>

fun init_tables_loop ::
  "(GSMetric \<times> string) list \<Rightarrow> nat \<Rightarrow> GModule \<Rightarrow> MDB_txn \<Rightarrow> GLMDBStorageMetric list
     \<Rightarrow> abort + (GLMDBStorageMetric list \<times> MDB_txn)" where
  "init_tables_loop [] i m txn ms = Inr (ms, txn)"
| "init_tables_loop ((mt, nm) # rows) i m txn ms =
     (case create_datebase txn (get_dbname nm m) MDB_CREATE of
        Inl e \<Rightarrow> Inl e
      | Inr (st, txn') \<Rightarrow>
          init_tables_loop rows (Suc i) m txn'
            (ms[i := \<lparr>metric = mt, dbname = Some nm, store = st\<rparr>]))"

definition init_tables ::
  "MDB_txn \<Rightarrow> GModule \<Rightarrow> GLMDBStorageArray \<Rightarrow> abort + (GLMDBStorageArray \<times> MDB_txn)" where
  "init_tables txn m arr =
     (case init_tables_loop metrics_table 0 m txn (metrics (modules arr m)) of
        Inl e \<Rightarrow> Inl e
      | Inr (ms, txn') \<Rightarrow>
          Inr (arr\<lparr>modules := (modules arr)(m := (modules arr m)\<lparr>metrics := ms\<rparr>)\<rparr>, txn'))"

text \<open>The \<^verbatim>\<open>FOREACH_MODULE\<close> loop of \<^verbatim>\<open>ginit_storage\<close>.\<close>

fun init_modules ::
  "GModule list \<Rightarrow> MDB_txn \<Rightarrow> GLMDBStorageArray \<Rightarrow> abort + (GLMDBStorageArray \<times> MDB_txn)" where
  "init_modules [] txn arr = Inr (arr, txn)"
| "init_modules (m # ml) txn arr =
     (case init_tables txn m
             (arr\<lparr>modules := (modules arr)(m := (modules arr m)\<lparr>module := m\<rparr>)\<rparr>) of
        Inl e \<Rightarrow> Inl e
      | Inr (arr', txn') \<Rightarrow> init_modules ml txn' arr')"

text \<open>
  \<^verbatim>\<open>ginit_storage\<close>, with the list of modules (\<^verbatim>\<open>module_list\<close> of the absent
  \<^verbatim>\<open>commons.h\<close>), the configured path, the file system and the disk as parameters.
\<close>

definition ginit_storage ::
  "GModule list \<Rightarrow> string option \<Rightarrow> (string \<Rightarrow> 32 word option) \<Rightarrow> (string \<Rightarrow> MDB_env option)
     \<Rightarrow> gstate \<Rightarrow> abort + gstate" where
  "ginit_storage module_list db_path fs disk s =
     (case create_environment db_path fs disk of
        Inl e \<Rightarrow> Inl e
      | Inr e0 \<Rightarrow>
     (let s0 = s\<lparr>db_storage := Some (new_storage e0)\<rparr> in
      case txn_begin s0 of
        Inl e \<Rightarrow> Inl e
      | Inr txn \<Rightarrow>
     (case create_datebase txn ''db_agent_keys'' MDB_CREATE of Inl e \<Rightarrow> Inl e | Inr (d1, txn1) \<Rightarrow>
     (case create_datebase txn1 ''db_agent_vals'' MDB_CREATE of Inl e \<Rightarrow> Inl e | Inr (d2, txn2) \<Rightarrow>
     (case create_datebase txn2 ''db_gen_stats'' MDB_CREATE of Inl e \<Rightarrow> Inl e | Inr (d3, txn3) \<Rightarrow>
     (case create_datebase txn3 ''db_hostnames'' MDB_CREATE of Inl e \<Rightarrow> Inl e | Inr (d4, txn4) \<Rightarrow>
     (case create_datebase txn4 ''db_unique_keys'' MDB_CREATE of Inl e \<Rightarrow> Inl e | Inr (d5, txn5) \<Rightarrow>
     (case init_modules module_list txn5 (new_storage e0) of
        Inl e \<Rightarrow> Inl e
      | Inr (arr, txn6) \<Rightarrow>
     (case txn_commit txn6
             (s\<lparr>db_storage := Some arr, ht_agent_keys := d1, ht_agent_vals := d2,
                ht_general_stats := d3, ht_hostnames := d4, ht_unique_keys := d5\<rparr>) of
        Inl e \<Rightarrow> Inl e
      | Inr (rc, s') \<Rightarrow> Inr s')))))))))"

text \<open>\<^verbatim>\<open>get_db\<close>: the loop over the metrics array of the module, then the lookup itself.\<close>

fun get_db_loop :: "GLMDBStorageMetric list \<Rightarrow> GSMetric \<Rightarrow> MDB_dbi option" where
  "get_db_loop [] mt = None"
| "get_db_loop (mtrc # rest) mt =
     (if metric mtrc \<noteq> mt then get_db_loop rest mt else store mtrc)"

definition get_db :: "gstate \<Rightarrow> GModule \<Rightarrow> GSMetric \<Rightarrow> MDB_dbi option" where
  "get_db s m mt =
     (case db_storage s of
        None \<Rightarrow> None
      | Some st \<Rightarrow> get_db_loop (take GSMTRC_TOTAL (metrics (modules st m))) mt)"

section \<open>Typed accessors\<close>

text \<open>
  Every accessor takes the table pointer (\<open>None\<close> when null), runs in one transaction and
  returns its C result with the state, or the way the process ended.
\<close>

definition sizeof_int :: nat where
  "sizeof_int = 4"

definition sizeof_uint64_t :: nat where
  "sizeof_uint64_t = 8"

definition db_get_size :: "MDB_dbi option \<Rightarrow> gstate \<Rightarrow> abort + (64 word \<times> gstate)" where
  "db_get_size db s =
     (case txn_begin s of
        Inl e \<Rightarrow> Inl e
      | Inr txn \<Rightarrow>
     (case db of
        None \<Rightarrow> Inl SIGSEGV
      | Some dbi \<Rightarrow>
     (case mdb_stat txn dbi of
        (rc, mst) \<Rightarrow>
          if rc \<noteq> 0 then Inl (FATAL ''Unable to stat database'')
          else (case txn_commit txn s of
                  Inl e \<Rightarrow> Inl e
                | Inr (r, s') \<Rightarrow> Inr (ms_entries mst, s')))))"

definition get_si32 :: "MDB_dbi option \<Rightarrow> byte list \<Rightarrow> gstate \<Rightarrow> abort + (32 word \<times> gstate)" where
  "get_si32 db k s =
     (case db of
        None \<Rightarrow> Inr (- 1, s)
      | Some dbi \<Rightarrow>
     (case txn_begin s of
        Inl e \<Rightarrow> Inl e
      | Inr txn \<Rightarrow>
     (case mdb_get txn dbi \<lparr>mv_size = strlen k, mv_data = k\<rparr> of
        (rc, data) \<Rightarrow>
          (case txn_commit txn s of
             Inl e \<Rightarrow> Inl e
           | Inr (r, s') \<Rightarrow> Inr (if rc = 0 then deref_int (mv_data data) else - 1, s')))))"

definition ins_si32 ::
  "MDB_dbi option \<Rightarrow> byte list \<Rightarrow> 32 word \<Rightarrow> gstate \<Rightarrow> abort + (32 word \<times> gstate)" where
  "ins_si32 db k v s =
     (case db of
        None \<Rightarrow> Inr (- 1, s)
      | Some dbi \<Rightarrow>
     (case txn_begin s of
        Inl e \<Rightarrow> Inl e
      | Inr txn \<Rightarrow>
     (case mdb_put txn dbi \<lparr>mv_size = strlen k, mv_data = k\<rparr>
             \<lparr>mv_size = sizeof_int, mv_data = int_bytes v\<rparr> 0 of
        (rc, txn') \<Rightarrow>
          if rc \<noteq> 0 then Inl (FATAL ''Unable to access database path'')
          else (case txn_commit txn' s of
                  Inl e \<Rightarrow> Inl e
                | Inr (r, s') \<Rightarrow> Inr (0, s')))))"

definition ins_is32 ::
  "MDB_dbi option \<Rightarrow> 32 word \<Rightarrow> byte list \<Rightarrow> gstate \<Rightarrow> abort + (32 word \<times> gstate)" where
  "ins_is32 db k v s =
     (case db of
        None \<Rightarrow> Inr (- 1, s)
      | Some dbi \<Rightarrow>
     (case txn_begin s of
        Inl e \<Rightarrow> Inl e
      | Inr txn \<Rightarrow>
     (case mdb_put txn dbi \<lparr>mv_size = sizeof_int, mv_data = int_bytes k\<rparr>
             \<lparr>mv_size = strlen v + 1, mv_data = v\<rparr> 0 of
        (rc, txn') \<Rightarrow>
          if rc \<noteq> 0 then Inl (FATAL ''Unable to access database path'')
          else (case txn_commit txn' s of
                  Inl e \<Rightarrow> Inl e
                | Inr (r, s') \<Rightarrow> Inr (0, s')))))"

text \<open>
  \<^verbatim>\<open>ins_si32_ai\<close>: \<^verbatim>\<open>size\<close> is a \<^verbatim>\<open>size_t\<close>, \<^verbatim>\<open>value\<close> an \<^verbatim>\<open>int\<close>; the
  assignment keeps the low 32 bits.
\<close>

definition ins_si32_ai :: "MDB_dbi option \<Rightarrow> byte list \<Rightarrow> gstate \<Rightarrow> abort + (32 word \<times> gstate)" where
  "ins_si32_ai db k s =
     (case db of
        None \<Rightarrow> Inr (- 1, s)
      | Some dbi \<Rightarrow>
     (case db_get_size db s of
        Inl e \<Rightarrow> Inl e
      | Inr (sz, s1) \<Rightarrow>
     (case ins_si32 db k (if sz > 0 then ucast (sz + 1) else 1) s1 of
        Inl e \<Rightarrow> Inl e
      | Inr (r, s2) \<Rightarrow>
          if r = - 1 then Inr (- 1, s2)
          else Inr (if sz > 0 then ucast (sz + 1) else 1, s2))))"

definition ins_ii32 ::
  "MDB_dbi option \<Rightarrow> 32 word \<Rightarrow> 32 word \<Rightarrow> gstate \<Rightarrow> abort + (32 word \<times> gstate)" where
  "ins_ii32 db k v s =
     (case db of
        None \<Rightarrow> Inr (- 1, s)
      | Some dbi \<Rightarrow>
     (case txn_begin s of
        Inl e \<Rightarrow> Inl e
      | Inr txn \<Rightarrow>
     (case mdb_put txn dbi \<lparr>mv_size = sizeof_int, mv_data = int_bytes k\<rparr>
             \<lparr>mv_size = sizeof_int, mv_data = int_bytes v\<rparr> 0 of
        (rc, txn') \<Rightarrow>
          if rc \<noteq> 0 then Inl (FATAL ''Unable to access database path'')
          else (case txn_commit txn' s of
                  Inl e \<Rightarrow> Inl e
                | Inr (r, s') \<Rightarrow> Inr (0, s')))))"

text \<open>
  The increments: \<^verbatim>\<open>ret\<close> starts as the increment and becomes the stored value plus
  the increment when the key is found. \<^verbatim>\<open>int\<close> addition is the two's complement one.
\<close>

definition inc_ii32 ::
  "MDB_dbi option \<Rightarrow> 32 word \<Rightarrow> 32 word \<Rightarrow> gstate \<Rightarrow> abort + (32 word \<times> gstate)" where
  "inc_ii32 db k inc s =
     (case db of
        None \<Rightarrow> Inr (- 1, s)
      | Some dbi \<Rightarrow>
     (case txn_begin s of
        Inl e \<Rightarrow> Inl e
      | Inr txn \<Rightarrow>
     (case mdb_get txn dbi \<lparr>mv_size = sizeof_int, mv_data = int_bytes k\<rparr> of
        (rc, data) \<Rightarrow>
     (case mdb_put txn dbi \<lparr>mv_size = sizeof_int, mv_data = int_bytes k\<rparr>
             \<lparr>mv_size = sizeof_int,
              mv_data = int_bytes (if rc = 0 then deref_int (mv_data data) + inc else inc)\<rparr> 0 of
        (rc', txn') \<Rightarrow>
          if rc' \<noteq> 0 then Inl (FATAL ''Unable to access database path'')
          else (case txn_commit txn' s of
                  Inl e \<Rightarrow> Inl e
                | Inr (r, s') \<Rightarrow> Inr (0, s'))))))"

definition inc_su64 ::
  "MDB_dbi option \<Rightarrow> byte list \<Rightarrow> 64 word \<Rightarrow> gstate \<Rightarrow> abort + (32 word \<times> gstate)" where
  "inc_su64 db k inc s =
     (case db of
        None \<Rightarrow> Inr (- 1, s)
      | Some dbi \<Rightarrow>
     (case txn_begin s of
        Inl e \<Rightarrow> Inl e
      | Inr txn \<Rightarrow>
     (case mdb_get txn dbi \<lparr>mv_size = strlen k, mv_data = k\<rparr> of
        (rc, data) \<Rightarrow>
     (case mdb_put txn dbi \<lparr>mv_size = strlen k, mv_data = k\<rparr>
             \<lparr>mv_size = sizeof_uint64_t,
              mv_data = u64_bytes (if rc = 0 then deref_u64 (mv_data data) + inc else inc)\<rparr> 0 of
        (rc', txn') \<Rightarrow>
          if rc' \<noteq> 0 then Inl (FATAL ''Unable to access database path'')
          else (case txn_commit txn' s of
                  Inl e \<Rightarrow> Inl e
                | Inr (r, s') \<Rightarrow> Inr (0, s'))))))"

definition inc_iu64 ::
  "MDB_dbi option \<Rightarrow> 32 word \<Rightarrow> 64 word \<Rightarrow> gstate \<Rightarrow> abort + (32 word \<times> gstate)" where
  "inc_iu64 db k inc s =
     (case db of
        None \<Rightarrow> Inr (- 1, s)
      | Some dbi \<Rightarrow>
     (case txn_begin s of
        Inl e \<Rightarrow> Inl e
      | Inr txn \<Rightarrow>
     (case mdb_get txn dbi \<lparr>mv_size = sizeof_int, mv_data = int_bytes k\<rparr> of
        (rc, data) \<Rightarrow>
     (case mdb_put txn dbi \<lparr>mv_size = sizeof_int, mv_data = int_bytes k\<rparr>
             \<lparr>mv_size = sizeof_uint64_t,
              mv_data = u64_bytes (if rc = 0 then deref_u64 (mv_data data) + inc else inc)\<rparr> 0 of
        (rc', txn') \<Rightarrow>
          if rc' \<noteq> 0 then Inl (FATAL ''Unable to access database path'')
          else (case txn_commit txn' s of
                  Inl e \<Rightarrow> Inl e
                | Inr (r, s') \<Rightarrow> Inr (0, s'))))))"

text \<open>\<^verbatim>\<open>get_iu64\<close> returns \<^verbatim>\<open>-1\<close> as a \<^verbatim>\<open>uint64_t\<close> for a null table.\<close>

definition get_iu64 :: "MDB_dbi option \<Rightarrow> 32 word \<Rightarrow> gstate \<Rightarrow> abort + (64 word \<times> gstate)" where
  "get_iu64 db k s =
     (case db of
        None \<Rightarrow> Inr (- 1, s)
      | Some dbi \<Rightarrow>
     (case txn_begin s of
        Inl e \<Rightarrow> Inl e
      | Inr txn \<Rightarrow>
     (case mdb_get txn dbi \<lparr>mv_size = sizeof_int, mv_data = int_bytes k\<rparr> of
        (rc, data) \<Rightarrow>
          (case txn_commit txn s of
             Inl e \<Rightarrow> Inl e
           | Inr (r, s') \<Rightarrow> Inr (if rc = 0 then deref_u64 (mv_data data) else 0, s')))))"

definition ins_iu64 ::
  "MDB_dbi option \<Rightarrow> 32 word \<Rightarrow> 64 word \<Rightarrow> gstate \<Rightarrow> abort + (32 word \<times> gstate)" where
  "ins_iu64 db k v s =
     (case db of
        None \<Rightarrow> Inr (- 1, s)
      | Some dbi \<Rightarrow>
     (case txn_begin s of
        Inl e \<Rightarrow> Inl e
      | Inr txn \<Rightarrow>
     (case mdb_put txn dbi \<lparr>mv_size = sizeof_int, mv_data = int_bytes k\<rparr>
             \<lparr>mv_size = sizeof_uint64_t, mv_data = u64_bytes v\<rparr> 0 of
        (rc, txn') \<Rightarrow>
          if rc \<noteq> 0 then Inl (FATAL ''Unable to access database path'')
          else (case txn_commit txn' s of
                  Inl e \<Rightarrow> Inl e
                | Inr (r, s') \<Rightarrow> Inr (0, s')))))"

text \<open>
  The string getters return a fresh copy (\<^verbatim>\<open>xstrdup\<close>) of the text at the stored
  value: the bytes before its first zero byte, terminated again; \<open>None\<close> is the null pointer.
\<close>

definition xstrdup :: "byte list \<Rightarrow> byte list" where
  "xstrdup p = c_text p @ [0]"

definition get_ss32 ::
  "MDB_dbi option \<Rightarrow> byte list \<Rightarrow> gstate \<Rightarrow> abort + (byte list option \<times> gstate)" where
  "get_ss32 db k s =
     (case db of
        None \<Rightarrow> Inr (None, s)
      | Some dbi \<Rightarrow>
     (case txn_begin s of
        Inl e \<Rightarrow> Inl e
      | Inr txn \<Rightarrow>
     (case mdb_get txn dbi \<lparr>mv_size = strlen k, mv_data = k\<rparr> of
        (rc, data) \<Rightarrow>
          (case txn_commit txn s of
             Inl e \<Rightarrow> Inl e
           | Inr (r, s') \<Rightarrow> Inr (if rc = 0 then Some (xstrdup (mv_data data)) else None, s')))))"

definition get_is32 ::
  "MDB_dbi option \<Rightarrow> 32 word \<Rightarrow> gstate \<Rightarrow> abort + (byte list option \<times> gstate)" where
  "get_is32 db k s =
     (case db of
        None \<Rightarrow> Inr (None, s)
      | Some dbi \<Rightarrow>
     (case txn_begin s of
        Inl e \<Rightarrow> Inl e
      | Inr txn \<Rightarrow>
     (case mdb_get txn dbi \<lparr>mv_size = sizeof_int, mv_data = int_bytes k\<rparr> of
        (rc, data) \<Rightarrow>
          (case txn_commit txn s of
             Inl e \<Rightarrow> Inl e
           | Inr (r, s') \<Rightarrow> Inr (if rc = 0 then Some (xstrdup (mv_data data)) else None, s')))))"

definition get_ii32 :: "MDB_dbi option \<Rightarrow> 32 word \<Rightarrow> gstate \<Rightarrow> abort + (32 word \<times> gstate)" where
  "get_ii32 db k s =
     (case db of
        None \<Rightarrow> Inr (- 1, s)
      | Some dbi \<Rightarrow>
     (case txn_begin s of
        Inl e \<Rightarrow> Inl e
      | Inr txn \<Rightarrow>
     (case mdb_get txn dbi \<lparr>mv_size = sizeof_int, mv_data = int_bytes k\<rparr> of
        (rc, data) \<Rightarrow>
          (case txn_commit txn s of
             Inl e \<Rightarrow> Inl e
           | Inr (r, s') \<Rightarrow> Inr (if rc = 0 then deref_int (mv_data data) else 0, s')))))"

section \<open>The public operations\<close>

definition db_insert_unique_key :: "byte list \<Rightarrow> gstate \<Rightarrow> abort + (32 word \<times> gstate)" where
  "db_insert_unique_key k s =
     (let db = ht_unique_keys s in
      if db = None then Inr (- 1, s)
      else (case get_si32 db k s of
              Inl e \<Rightarrow> Inl e
            | Inr (v, s1) \<Rightarrow> if v \<noteq> - 1 then Inr (v, s1) else ins_si32_ai db k s1))"

definition db_insert_agent_key :: "byte list \<Rightarrow> gstate \<Rightarrow> abort + (32 word \<times> gstate)" where
  "db_insert_agent_key k s =
     (let db = ht_agent_keys s in
      if db = None then Inr (- 1, s)
      else (case get_si32 db k s of
              Inl e \<Rightarrow> Inl e
            | Inr (v, s1) \<Rightarrow> if v \<noteq> - 1 then Inr (v, s1) else ins_si32_ai db k s1))"

definition db_insert_agent_value :: "32 word \<Rightarrow> byte list \<Rightarrow> gstate \<Rightarrow> abort + (32 word \<times> gstate)" where
  "db_insert_agent_value k v s =
     (let db = ht_agent_vals s in
      if db = None then Inr (- 1, s) else ins_is32 db k v s)"

definition db_insert_keymap :: "GModule \<Rightarrow> byte list \<Rightarrow> gstate \<Rightarrow> abort + (32 word \<times> gstate)" where
  "db_insert_keymap m k s =
     (let db = get_db s m MTRC_KEYMAP in
      if db = None then Inr (- 1, s)
      else (case get_si32 db k s of
              Inl e \<Rightarrow> Inl e
            | Inr (v, s1) \<Rightarrow> if v \<noteq> - 1 then Inr (v, s1) else ins_si32_ai db k s1))"

definition db_insert_uniqmap :: "GModule \<Rightarrow> byte list \<Rightarrow> gstate \<Rightarrow> abort + (32 word \<times> gstate)" where
  "db_insert_uniqmap m k s =
     (let db = get_db s m MTRC_UNIQMAP in
      if db = None then Inr (- 1, s)
      else (case get_si32 db k s of
              Inl e \<Rightarrow> Inl e
            | Inr (v, s1) \<Rightarrow> if v \<noteq> - 1 then Inr (0, s1) else ins_si32_ai db k s1))"

definition db_insert_datamap ::
  "GModule \<Rightarrow> 32 word \<Rightarrow> byte list \<Rightarrow> gstate \<Rightarrow> abort + (32 word \<times> gstate)" where
  "db_insert_datamap m k v s =
     (let db = get_db s m MTRC_DATAMAP in
      if db = None then Inr (- 1, s) else ins_is32 db k v s)"

definition db_insert_rootmap ::
  "GModule \<Rightarrow> 32 word \<Rightarrow> byte list \<Rightarrow> gstate \<Rightarrow> abort + (32 word \<times> gstate)" where
  "db_insert_rootmap m k v s =
     (let db = get_db s m MTRC_ROOTMAP in
      if db = None then Inr (- 1, s) else ins_is32 db k v s)"

definition db_insert_root ::
  "GModule \<Rightarrow> 32 word \<Rightarrow> 32 word \<Rightarrow> gstate \<Rightarrow> abort + (32 word \<times> gstate)" where
  "db_insert_root m k v s =
     (let db = get_db s m MTRC_ROOT in
      if db = None then Inr (- 1, s) else ins_ii32 db k v s)"

definition db_insert_hits ::
  "GModule \<Rightarrow> 32 word \<Rightarrow> 32 word \<Rightarrow> gstate \<Rightarrow> abort + (32 word \<times> gstate)" where
  "db_insert_hits m k inc s =
     (let db = get_db s m MTRC_HITS in
      if db = None then Inr (- 1, s) else inc_ii32 db k inc s)"

definition db_insert_visitor ::
  "GModule \<Rightarrow> 32 word \<Rightarrow> 32 word \<Rightarrow> gstate \<Rightarrow> abort + (32 word \<times> gstate)" where
  "db_insert_visitor m k inc s =
     (let db = get_db s m MTRC_VISITORS in
      if db = None then Inr (- 1, s) else inc_ii32 db k inc s)"

definition db_insert_bw ::
  "GModule \<Rightarrow> 32 word \<Rightarrow> 64 word \<Rightarrow> gstate \<Rightarrow> abort + (32 word \<times> gstate)" where
  "db_insert_bw m k inc s =
     (let db = get_db s m MTRC_BW in
      if db = None then Inr (- 1, s) else inc_iu64 db k inc s)"

definition db_insert_cumts ::
  "GModule \<Rightarrow> 32 word \<Rightarrow> 64 word \<Rightarrow> gstate \<Rightarrow> abort + (32 word \<times> gstate)" where
  "db_insert_cumts m k inc s =
     (let db = get_db s m MTRC_CUMTS in
      if db = None then Inr (- 1, s) else inc_iu64 db k inc s)"

definition db_insert_maxts ::
  "GModule \<Rightarrow> 32 word \<Rightarrow> 64 word \<Rightarrow> gstate \<Rightarrow> abort + (32 word \<times> gstate)" where
  "db_insert_maxts m k v s =
     (let db = get_db s m MTRC_MAXTS in
      if db = None then Inr (- 1, s)
      else (case get_iu64 db k s of
              Inl e \<Rightarrow> Inl e
            | Inr (curvalue, s1) \<Rightarrow>
                if curvalue < v
                then (case ins_iu64 db k v s1 of
                        Inl e \<Rightarrow> Inl e
                      | Inr (r, s2) \<Rightarrow> Inr (0, s2))
                else Inr (0, s1)))"

definition db_insert_method ::
  "GModule \<Rightarrow> 32 word \<Rightarrow> byte list \<Rightarrow> gstate \<Rightarrow> abort + (32 word \<times> gstate)" where
  "db_insert_method m k v s =
     (let db = get_db s m MTRC_METHODS in
      if db = None then Inr (- 1, s) else ins_is32 db k v s)"

definition db_insert_protocol ::
  "GModule \<Rightarrow> 32 word \<Rightarrow> byte list \<Rightarrow> gstate \<Rightarrow> abort + (32 word \<times> gstate)" where
  "db_insert_protocol m k v s =
     (let db = get_db s m MTRC_PROTOCOLS in
      if db = None then Inr (- 1, s) else ins_is32 db k v s)"

definition db_insert_meta_data ::
  "GModule \<Rightarrow> byte list \<Rightarrow> 64 word \<Rightarrow> gstate \<Rightarrow> abort + (32 word \<times> gstate)" where
  "db_insert_meta_data m k v s =
     (let db = get_db s m MTRC_METADATA in
      if db = None then Inr (- 1, s) else inc_su64 db k v s)"

definition db_get_hostname :: "byte list \<Rightarrow> gstate \<Rightarrow> abort + (byte list option \<times> gstate)" where
  "db_get_hostname host s =
     (let db = ht_hostnames s in
      if db = None then Inr (None, s) else get_ss32 db host s)"

definition db_get_datamap :: "GModule \<Rightarrow> 32 word \<Rightarrow> gstate \<Rightarrow> abort + (byte list option \<times> gstate)" where
  "db_get_datamap m k s =
     (let db = get_db s m MTRC_DATAMAP in
      if db = None then Inr (None, s) else get_is32 db k s)"

definition db_get_hits :: "GModule \<Rightarrow> 32 word \<Rightarrow> gstate \<Rightarrow> abort + (32 word \<times> gstate)" where
  "db_get_hits m k s =
     (let db = get_db s m MTRC_HITS in
      if db = None then Inr (- 1, s) else get_ii32 db k s)"

definition db_get_bw :: "GModule \<Rightarrow> 32 word \<Rightarrow> gstate \<Rightarrow> abort + (64 word \<times> gstate)" where
  "db_get_bw m k s =
     (let db = get_db s m MTRC_BW in
      if db = None then Inr (0, s) else get_iu64 db k s)"

definition db_get_cumts :: "GModule \<Rightarrow> 32 word \<Rightarrow> gstate \<Rightarrow> abort + (64 word \<times> gstate)" where
  "db_get_cumts m k s =
     (let db = get_db s m MTRC_CUMTS in
      if db = None then Inr (0, s) else get_iu64 db k s)"

definition db_get_maxts :: "GModule \<Rightarrow> 32 word \<Rightarrow> gstate \<Rightarrow> abort + (64 word \<times> gstate)" where
  "db_get_maxts m k s =
     (let db = get_db s m MTRC_MAXTS in
      if db = None then Inr (0, s) else get_iu64 db k s)"

definition db_get_visitors :: "GModule \<Rightarrow> 32 word \<Rightarrow> gstate \<Rightarrow> abort + (32 word \<times> gstate)" where
  "db_get_visitors m k s =
     (let db = get_db s m MTRC_VISITORS in
      if db = None then Inr (- 1, s) else get_ii32 db k s)"

definition db_get_method :: "GModule \<Rightarrow> 32 word \<Rightarrow> gstate \<Rightarrow> abort + (byte list option \<times> gstate)" where
  "db_get_method m k s =
     (let db = get_db s m MTRC_METHODS in
      if db = None then Inr (None, s) else get_is32 db k s)"

definition db_get_protocol :: "GModule \<Rightarrow> 32 word \<Rightarrow> gstate \<Rightarrow> abort + (byte list option \<times> gstate)" where
  "db_get_protocol m k s =
     (let db = get_db s m MTRC_PROTOCOLS in
      if db = None then Inr (None, s) else get_is32 db k s)"

definition db_get_root :: "GModule \<Rightarrow> 32 word \<Rightarrow> gstate \<Rightarrow> abort + (byte list option \<times> gstate)" where
  "db_get_root m k s =
     (let hashroot = get_db s m MTRC_ROOT;
          hashrootmap = get_db s m MTRC_ROOTMAP in
      if hashroot = None \<or> hashrootmap = None then Inr (None, s)
      else (case get_ii32 hashroot k s of
              Inl e \<Rightarrow> Inl e
            | Inr (root_key, s1) \<Rightarrow>
                if root_key = 0 then Inr (None, s1) else get_is32 hashrootmap root_key s1))"

text \<open>The size queries return a \<^verbatim>\<open>uint32_t\<close>: the low 32 bits of the count.\<close>

definition db_get_size_uniqmap :: "GModule \<Rightarrow> gstate \<Rightarrow> abort + (32 word \<times> gstate)" where
  "db_get_size_uniqmap m s =
     (let db = get_db s m MTRC_UNIQMAP in
      if db = None then Inr (0, s)
      else (case db_get_size db s of
              Inl e \<Rightarrow> Inl e
            | Inr (sz, s') \<Rightarrow> Inr (ucast sz, s')))"

definition db_get_size_datamap :: "GModule \<Rightarrow> gstate \<Rightarrow> abort + (32 word \<times> gstate)" where
  "db_get_size_datamap m s =
     (let db = get_db s m MTRC_DATAMAP in
      if db = None then Inr (0, s)
      else (case db_get_size db s of
              Inl e \<Rightarrow> Inl e
            | Inr (sz, s') \<Rightarrow> Inr (ucast sz, s')))"


section \<open>The bulk exporter\<close>

text \<open>
  Modelled from the spec: \<^verbatim>\<open>GRawData\<close> and \<^verbatim>\<open>GRawDataItem\<close> are declared in the
  absent \<^verbatim>\<open>gstorage.h\<close>; the export is a self-contained array of a module tag, a count
  and typed items. The fields are the ones \<^verbatim>\<open>mdb.c\<close> assigns. The value of an item is
  a union of an \<^verbatim>\<open>int\<close> and a \<^verbatim>\<open>char *\<close>, the latter given by the bytes it points to.
\<close>

datatype GRawDataType = INTEGER | STRING

datatype GRawDataValue = IVALUE "32 word" | SVALUE "byte list"

record GRawDataItem =
  item_key :: "32 word"
  item_value :: GRawDataValue

record GRawData =
  raw_items :: "GRawDataItem list"
  raw_module :: GModule
  raw_type :: GRawDataType
  raw_idx :: nat
  raw_size :: "32 word"

text \<open>Modelled from the spec: the absent allocator of an item list of the given count, zeroed.\<close>

definition new_grawdata_item :: "nat \<Rightarrow> GRawDataItem list" where
  "new_grawdata_item n = replicate n \<lparr>item_key = 0, item_value = IVALUE 0\<rparr>"

definition init_new_raw_data :: "GModule \<Rightarrow> 32 word \<Rightarrow> GRawData" where
  "init_new_raw_data m ht_size =
     \<lparr>raw_items = new_grawdata_item (unat ht_size), raw_module = m, raw_type = INTEGER,
      raw_idx = 0, raw_size = ht_size\<rparr>"

text \<open>
  Modelled from the spec: the sorts of the absent \<^verbatim>\<open>sort.c\<close>, stable sorts of the first
  \<open>n\<close> items by value: numeric, ascending or descending as configured (the flag),
  and lexicographic on the text for strings.
\<close>

definition item_num :: "GRawDataItem \<Rightarrow> int" where
  "item_num it = (case item_value it of IVALUE v \<Rightarrow> sint v | SVALUE p \<Rightarrow> 0)"

definition item_str :: "GRawDataItem \<Rightarrow> byte list" where
  "item_str it = (case item_value it of IVALUE v \<Rightarrow> [] | SVALUE p \<Rightarrow> c_text p)"

definition sort_raw_num_data :: "bool \<Rightarrow> GRawData \<Rightarrow> nat \<Rightarrow> GRawData" where
  "sort_raw_num_data desc raw n =
     raw\<lparr>raw_items :=
           sort_key (\<lambda>it. if desc then - item_num it else item_num it) (take n (raw_items raw))
             @ drop n (raw_items raw)\<rparr>"

definition sort_raw_str_data :: "GRawData \<Rightarrow> nat \<Rightarrow> GRawData" where
  "sort_raw_str_data raw n =
     raw\<lparr>raw_items := sort_key item_str (take n (raw_items raw)) @ drop n (raw_items raw)\<rparr>"

text \<open>
  The cursor loops: one step per entry the cursor still yields. The item at
  \<^verbatim>\<open>raw_data->idx\<close> is written; past the allocated items that is a heap overflow.
\<close>

fun scan_num_loop :: "MDB_cursor \<Rightarrow> GRawData \<Rightarrow> abort + GRawData" where
  "scan_num_loop [] raw = Inr raw"
| "scan_num_loop ((k, d) # cursor) raw =
     (if raw_idx raw < length (raw_items raw)
      then scan_num_loop cursor
             (raw\<lparr>raw_items := (raw_items raw)
                     [raw_idx raw := \<lparr>item_key = deref_int k, item_value = IVALUE (deref_int d)\<rparr>],
                  raw_idx := raw_idx raw + 1\<rparr>)
      else Inl HEAP_OVERFLOW)"

fun scan_str_loop :: "MDB_cursor \<Rightarrow> GRawData \<Rightarrow> abort + GRawData" where
  "scan_str_loop [] raw = Inr raw"
| "scan_str_loop ((k, d) # cursor) raw =
     (if raw_idx raw < length (raw_items raw)
      then scan_str_loop cursor
             (raw\<lparr>raw_items := (raw_items raw)
                     [raw_idx raw := \<lparr>item_key = deref_int k, item_value = SVALUE d\<rparr>],
                  raw_idx := raw_idx raw + 1\<rparr>)
      else Inl HEAP_OVERFLOW)"

definition parse_raw_num_data ::
  "bool \<Rightarrow> GModule \<Rightarrow> gstate \<Rightarrow> abort + (GRawData option \<times> gstate)" where
  "parse_raw_num_data desc m s =
     (case get_db s m MTRC_HITS of
        None \<Rightarrow> Inr (None, s)
      | Some dbi \<Rightarrow>
     (case db_get_size (Some dbi) s of
        Inl e \<Rightarrow> Inl e
      | Inr (sz, s1) \<Rightarrow>
     (case txn_begin s1 of
        Inl e \<Rightarrow> Inl e
      | Inr txn \<Rightarrow>
     (case mdb_cursor_open txn dbi of
        (rc, cursor) \<Rightarrow>
     (case scan_num_loop cursor ((init_new_raw_data m (ucast sz))\<lparr>raw_type := INTEGER\<rparr>) of
        Inl e \<Rightarrow> Inl e
      | Inr raw \<Rightarrow>
     (case txn_commit txn s1 of
        Inl e \<Rightarrow> Inl e
      | Inr (r, s2) \<Rightarrow> Inr (Some (sort_raw_num_data desc raw (raw_idx raw)), s2)))))))"

definition parse_raw_str_data :: "GModule \<Rightarrow> gstate \<Rightarrow> abort + (GRawData option \<times> gstate)" where
  "parse_raw_str_data m s =
     (case get_db s m MTRC_DATAMAP of
        None \<Rightarrow> Inr (None, s)
      | Some dbi \<Rightarrow>
     (case db_get_size (Some dbi) s of
        Inl e \<Rightarrow> Inl e
      | Inr (sz, s1) \<Rightarrow>
     (case txn_begin s1 of
        Inl e \<Rightarrow> Inl e
      | Inr txn \<Rightarrow>
     (case mdb_cursor_open txn dbi of
        (rc, cursor) \<Rightarrow>
     (case scan_str_loop cursor ((init_new_raw_data m (ucast sz))\<lparr>raw_type := STRING\<rparr>) of
        Inl e \<Rightarrow> Inl e
      | Inr raw \<Rightarrow>
     (case txn_commit txn s1 of
        Inl e \<Rightarrow> Inl e
      | Inr (r, s2) \<Rightarrow> Inr (Some (sort_raw_str_data raw (raw_idx raw)), s2)))))))"

text \<open>
  \<^verbatim>\<open>db_parse_raw_data\<close> reads \<^verbatim>\<open>db_storage->env\<close> before anything else. The flag is
  the configured direction of the numeric sort.
\<close>

definition db_parse_raw_data ::
  "bool \<Rightarrow> GModule \<Rightarrow> gstate \<Rightarrow> abort + (GRawData option \<times> gstate)" where
  "db_parse_raw_data desc m s =
     (case db_storage s of
        None \<Rightarrow> Inl SIGSEGV
      | Some st \<Rightarrow>
          if mdb_env_sync (env st) 1 \<noteq> 0 then Inl (FATAL ''Unable to sync transaction'')
          else (case m of
                  VISITORS \<Rightarrow> parse_raw_str_data m s
                | Module i \<Rightarrow> parse_raw_num_data desc m s))"

section \<open>Observations and a sample state\<close>

text \<open>
  The statements below read a table of the environment with \<open>tbl\<close>, name the state with
  one table replaced with \<open>set_tbl\<close>, and call a state initialized when
  \<^verbatim>\<open>db_storage\<close> is not null.
\<close>

definition tbl :: "gstate \<Rightarrow> MDB_dbi \<Rightarrow> table" where
  "tbl s d = (case db_storage s of None \<Rightarrow> [] | Some st \<Rightarrow> me_dbs (env st) d)"

definition set_tbl :: "MDB_dbi \<Rightarrow> table \<Rightarrow> gstate \<Rightarrow> gstate" where
  "set_tbl d t s =
     s\<lparr>db_storage :=
         map_option (\<lambda>st. st\<lparr>env := (env st)\<lparr>me_dbs := (me_dbs (env st))(d := t)\<rparr>\<rparr>)
           (db_storage s)\<rparr>"

definition initialized :: "gstate \<Rightarrow> bool" where
  "initialized s = (db_storage s \<noteq> None)"

text \<open>An environment directory with no table in it.\<close>

definition empty_env :: MDB_env where
  "empty_env = \<lparr>me_names = [], me_dbs = (\<lambda>d. [])\<rparr>"

text \<open>
  A host where \<^verbatim>\<open>/tmp\<close> is a directory (mode 040755) that holds an environment with
  no table in it, and nothing else exists.
\<close>

definition tmp_fs :: "string \<Rightarrow> 32 word option" where
  "tmp_fs path = (if path = ''/tmp'' then Some 16877 else None)"

definition tmp_disk :: "string \<Rightarrow> MDB_env option" where
  "tmp_disk path = (if path = ''/tmp'' then Some empty_env else None)"

text \<open>
  The state \<^verbatim>\<open>ginit_storage\<close> leaves on that host for the module list of
  \<^verbatim>\<open>VISITORS\<close> alone and no configured path (lemma \<open>sample_init\<close>).
\<close>

definition sample_state :: gstate where
  "sample_state =
     \<lparr>db_storage = Some
        \<lparr>env = \<lparr>me_names =
                   [(''db_agent_keys'', 1), (''db_agent_vals'', 2), (''db_gen_stats'', 3),
                    (''db_hostnames'', 4), (''db_unique_keys'', 5), (''db_keymap-m0'', 6),
                    (''db_rootmap-m0'', 7), (''db_datamap-m0'', 8), (''db_uniqmap-m0'', 9),
                    (''db_root-m0'', 10), (''db_hits-m0'', 11), (''db_visitors-m0'', 12),
                    (''db_bw-m0'', 13), (''db_cumts-m0'', 14), (''db_maxts-m0'', 15),
                    (''db_methods-m0'', 16), (''db_protocols-m0'', 17),
                    (''db_agents-m0'', 18), (''db_metadata-m0'', 19)],
                 me_dbs = (\<lambda>d. [])\<rparr>,
         modules = (modules (new_storage empty_env))
           (VISITORS :=
              \<lparr>module = VISITORS,
               metrics =
                 [\<lparr>metric = MTRC_KEYMAP, dbname = Some ''db_keymap'', store = Some 6\<rparr>,
                  \<lparr>metric = MTRC_ROOTMAP, dbname = Some ''db_rootmap'', store = Some 7\<rparr>,
                  \<lparr>metric = MTRC_DATAMAP, dbname = Some ''db_datamap'', store = Some 8\<rparr>,
                  \<lparr>metric = MTRC_UNIQMAP, dbname = Some ''db_uniqmap'', store = Some 9\<rparr>,
                  \<lparr>metric = MTRC_ROOT, dbname = Some ''db_root'', store = Some 10\<rparr>,
                  \<lparr>metric = MTRC_HITS, dbname = Some ''db_hits'', store = Some 11\<rparr>,
                  \<lparr>metric = MTRC_VISITORS, dbname = Some ''db_visitors'', store = Some 12\<rparr>,
                  \<lparr>metric = MTRC_BW, dbname = Some ''db_bw'', store = Some 13\<rparr>,
                  \<lparr>metric = MTRC_CUMTS, dbname = Some ''db_cumts'', store = Some 14\<rparr>,
                  \<lparr>metric = MTRC_MAXTS, dbname = Some ''db_maxts'', store = Some 15\<rparr>,
                  \<lparr>metric = MTRC_METHODS, dbname = Some ''db_methods'', store = Some 16\<rparr>,
                  \<lparr>metric = MTRC_PROTOCOLS, dbname = Some ''db_protocols'', store = Some 17\<rparr>,
                  \<lparr>metric = MTRC_AGENTS, dbname = Some ''db_agents'', store = Some 18\<rparr>,
                  \<lparr>metric = MTRC_METADATA, dbname = Some ''db_metadata'', store = Some 19\<rparr>]\<rparr>)\<rparr>,
      ht_agent_keys = Some 1, ht_agent_vals = Some 2, ht_general_stats = Some 3,
      ht_hostnames = Some 4, ht_unique_keys = Some 5\<rparr>"


text \<open>
  Serial calls of one operation, one argument after the other, each on the state the call
  before left: \<open>serially\<close> keeps the final state, \<open>collect\<close> the results as well.
\<close>

fun serially ::
  "('a \<Rightarrow> gstate \<Rightarrow> abort + ('r \<times> gstate)) \<Rightarrow> 'a list \<Rightarrow> gstate \<Rightarrow> abort + gstate" where
  "serially f [] s = Inr s"
| "serially f (x # xs) s =
     (case f x s of Inl e \<Rightarrow> Inl e | Inr (r, s') \<Rightarrow> serially f xs s')"

fun collect ::
  "('a \<Rightarrow> gstate \<Rightarrow> abort + ('r \<times> gstate)) \<Rightarrow> 'a list \<Rightarrow> gstate
     \<Rightarrow> abort + ('r list \<times> gstate)" where
  "collect f [] s = Inr ([], s)"
| "collect f (x # xs) s =
     (case f x s of
        Inl e \<Rightarrow> Inl e
      | Inr (r, s') \<Rightarrow>
          (case collect f xs s' of Inl e \<Rightarrow> Inl e | Inr (rs, s'') \<Rightarrow> Inr (r # rs, s'')))"

text \<open>
  The counter a table holds for a key, as the getters \<^verbatim>\<open>get_ii32\<close> and
  \<^verbatim>\<open>get_iu64\<close> read it: 0 when the key is absent.
\<close>

definition stored_int :: "table \<Rightarrow> byte list \<Rightarrow> 32 word" where
  "stored_int t kb = (case map_of t kb of None \<Rightarrow> 0 | Some b \<Rightarrow> deref_int b)"

definition stored_u64 :: "table \<Rightarrow> byte list \<Rightarrow> 64 word" where
  "stored_u64 t kb = (case map_of t kb of None \<Rightarrow> 0 | Some b \<Rightarrow> deref_u64 b)"

text \<open>Every value of the table reads as an \<^verbatim>\<open>int\<close> of at least 1.\<close>

definition ids_ok :: "table \<Rightarrow> bool" where
  "ids_ok t = list_all (\<lambda>(k, b). 1 \<le> sint (deref_int b)) t"

text \<open>
  The keymap table after the keys \<^verbatim>\<open>"b"\<close>, \<^verbatim>\<open>"bb"\<close>, \<^verbatim>\<open>"bbb"\<close> and so on
  have been interned in this order, \<open>n\<close> of them: the key of length \<open>i\<close> has id \<open>i\<close>.
\<close>

definition run_of_b :: "nat \<Rightarrow> table" where
  "run_of_b n = map (\<lambda>i. (replicate (Suc i) 98, int_bytes (word_of_nat (Suc i)))) [0..<n]"

definition big_state :: gstate where
  "big_state = set_tbl 6 (run_of_b (2 ^ 31 - 1)) sample_state"

section \<open>Basic facts\<close>


lemma le_word_le_bytes: "le_word (le_bytes n w) = take_bit (8 * n) (w :: 'a::len word)"
proof (induction n arbitrary: w)
  case 0
  show ?case by simp
next
  case (Suc n)
  have "ucast (ucast w :: byte) OR push_bit 8 (take_bit (8 * n) (drop_bit 8 w)) = take_bit (8 * Suc n) w"
    by (rule bit_word_eqI) (auto simp add: bit_simps)
  then show ?case by (simp add: Suc)
qed

lemma length_le_bytes [simp]: "length (le_bytes n w) = n"
  by (induction n arbitrary: w) auto

lemma length_int_bytes [simp]: "length (int_bytes w) = 4"
  by (simp add: int_bytes_def)

lemma length_u64_bytes [simp]: "length (u64_bytes w) = 8"
  by (simp add: u64_bytes_def)

lemma deref_int_bytes [simp]: "deref_int (int_bytes w) = w"
  by (simp add: deref_int_def int_bytes_def le_word_le_bytes take_bit_word_eq_self del: le_bytes.simps)

lemma deref_u64_bytes [simp]: "deref_u64 (u64_bytes w) = w"
  by (simp add: deref_u64_def u64_bytes_def le_word_le_bytes take_bit_word_eq_self del: le_bytes.simps)

lemma int_bytes_inj [simp]: "int_bytes a = int_bytes b \<longleftrightarrow> a = b"
  by (metis deref_int_bytes)

lemma u64_bytes_inj [simp]: "u64_bytes a = u64_bytes b \<longleftrightarrow> a = b"
  by (metis deref_u64_bytes)

lemma take_length_takeWhile: "take (length (takeWhile P xs)) xs = takeWhile P xs"
  by (induction xs) auto

lemma val_bytes_str [simp]: "val_bytes \<lparr>mv_size = strlen k, mv_data = k\<rparr> = c_text k"
  by (simp add: val_bytes_def strlen_def c_text_def take_length_takeWhile)

lemma val_bytes_int [simp]: "val_bytes \<lparr>mv_size = sizeof_int, mv_data = int_bytes w\<rparr> = int_bytes w"
  by (simp add: val_bytes_def sizeof_int_def)

lemma val_bytes_u64 [simp]: "val_bytes \<lparr>mv_size = sizeof_uint64_t, mv_data = u64_bytes w\<rparr> = u64_bytes w"
  by (simp add: val_bytes_def sizeof_uint64_t_def)

lemma map_of_tbl_put [simp]: "map_of (tbl_put k d t) = (map_of t)(k \<mapsto> d)"
  by (induction t) (auto simp: fun_eq_iff)

lemma length_tbl_put_fresh: "map_of t k = None \<Longrightarrow> length (tbl_put k d t) = Suc (length t)"
  by (induction t) (auto split: if_splits)

lemma mdb_put_0 [simp]:
  "mdb_put txn dbi k d 0 =
     (0, txn\<lparr>me_dbs := (me_dbs txn)(dbi := tbl_put (val_bytes k) (val_bytes d) (me_dbs txn dbi))\<rparr>)"
  by (simp add: mdb_put_def MDB_NOOVERWRITE_def)

lemma mdb_get_eq [simp]:
  "mdb_get txn dbi k =
     (case map_of (me_dbs txn dbi) (val_bytes k) of
        None \<Rightarrow> (- 30798, \<lparr>mv_size = 0, mv_data = []\<rparr>)
      | Some d \<Rightarrow> (0, \<lparr>mv_size = length d, mv_data = d\<rparr>))"
  by (simp add: mdb_get_def MDB_NOTFOUND_def split: option.splits)

lemma initializedE: "initialized s \<Longrightarrow> \<exists>st. db_storage s = Some st"
  by (simp add: initialized_def)

lemma txn_begin_init: "db_storage s = Some st \<Longrightarrow> txn_begin s = Inr (env st)"
  by (simp add: txn_begin_def mdb_txn_begin_def)

lemma set_tbl_same [simp]: "set_tbl d (tbl s d) s = s"
  by (cases "db_storage s") (simp_all add: set_tbl_def tbl_def)

lemma tbl_set_tbl [simp]: "initialized s \<Longrightarrow> tbl (set_tbl d t s) d' = (if d' = d then t else tbl s d')"
  by (auto simp: initialized_def set_tbl_def tbl_def)

lemma initialized_set_tbl [simp]: "initialized (set_tbl d t s) = initialized s"
  by (auto simp: initialized_def set_tbl_def)

lemma get_db_set_tbl [simp]: "get_db (set_tbl d t s) m mt = get_db s m mt"
  by (cases "db_storage s") (auto simp: get_db_def set_tbl_def)

lemma set_tbl_set_tbl [simp]: "set_tbl d t (set_tbl d t' s) = set_tbl d t s"
  by (cases "db_storage s") (auto simp: set_tbl_def)

lemma get_si32_init:
  "initialized s \<Longrightarrow>
   get_si32 (Some d) k s =
     Inr (case map_of (tbl s d) (c_text k) of None \<Rightarrow> - 1 | Some v \<Rightarrow> deref_int v, s)"
  by (auto simp: initialized_def get_si32_def txn_begin_def mdb_txn_begin_def 
        txn_commit_def mdb_txn_commit_def tbl_def split: option.splits)

lemma ins_si32_init:
  "initialized s \<Longrightarrow>
   ins_si32 (Some d) k v s = Inr (0, set_tbl d (tbl_put (c_text k) (int_bytes v) (tbl s d)) s)"
  by (auto simp: initialized_def ins_si32_def txn_begin_def mdb_txn_begin_def 
        txn_commit_def mdb_txn_commit_def tbl_def set_tbl_def split: option.splits)

lemma db_get_size_init:
  "initialized s \<Longrightarrow> db_get_size (Some d) s = Inr (word_of_nat (length (tbl s d)), s)"
  by (auto simp: initialized_def db_get_size_def txn_begin_def mdb_txn_begin_def mdb_stat_def
        txn_commit_def mdb_txn_commit_def tbl_def split: option.splits)


lemma ins_is32_init:
  "initialized s \<Longrightarrow>
   ins_is32 (Some d) k v s =
     Inr (0, set_tbl d (tbl_put (int_bytes k) (take (strlen v + 1) v) (tbl s d)) s)"
  by (auto simp: initialized_def ins_is32_def txn_begin_def mdb_txn_begin_def val_bytes_def
        txn_commit_def mdb_txn_commit_def tbl_def set_tbl_def sizeof_int_def split: option.splits)

lemma ins_ii32_init:
  "initialized s \<Longrightarrow>
   ins_ii32 (Some d) k v s = Inr (0, set_tbl d (tbl_put (int_bytes k) (int_bytes v) (tbl s d)) s)"
  by (auto simp: initialized_def ins_ii32_def txn_begin_def mdb_txn_begin_def
        txn_commit_def mdb_txn_commit_def tbl_def set_tbl_def split: option.splits)

lemma ins_iu64_init:
  "initialized s \<Longrightarrow>
   ins_iu64 (Some d) k v s = Inr (0, set_tbl d (tbl_put (int_bytes k) (u64_bytes v) (tbl s d)) s)"
  by (auto simp: initialized_def ins_iu64_def txn_begin_def mdb_txn_begin_def
        txn_commit_def mdb_txn_commit_def tbl_def set_tbl_def split: option.splits)

lemma get_ii32_init:
  "initialized s \<Longrightarrow>
   get_ii32 (Some d) k s =
     Inr (case map_of (tbl s d) (int_bytes k) of None \<Rightarrow> 0 | Some v \<Rightarrow> deref_int v, s)"
  by (auto simp: initialized_def get_ii32_def txn_begin_def mdb_txn_begin_def
        txn_commit_def mdb_txn_commit_def tbl_def split: option.splits)

lemma get_iu64_init:
  "initialized s \<Longrightarrow>
   get_iu64 (Some d) k s =
     Inr (case map_of (tbl s d) (int_bytes k) of None \<Rightarrow> 0 | Some v \<Rightarrow> deref_u64 v, s)"
  by (auto simp: initialized_def get_iu64_def txn_begin_def mdb_txn_begin_def
        txn_commit_def mdb_txn_commit_def tbl_def split: option.splits)

lemma get_is32_init:
  "initialized s \<Longrightarrow>
   get_is32 (Some d) k s = Inr (map_option xstrdup (map_of (tbl s d) (int_bytes k)), s)"
  by (auto simp: initialized_def get_is32_def txn_begin_def mdb_txn_begin_def
        txn_commit_def mdb_txn_commit_def tbl_def split: option.splits)

lemma get_ss32_init:
  "initialized s \<Longrightarrow>
   get_ss32 (Some d) k s = Inr (map_option xstrdup (map_of (tbl s d) (c_text k)), s)"
  by (auto simp: initialized_def get_ss32_def txn_begin_def mdb_txn_begin_def
        txn_commit_def mdb_txn_commit_def tbl_def split: option.splits)

lemma inc_ii32_init:
  "initialized s \<Longrightarrow>
   inc_ii32 (Some d) k i s =
     Inr (0, set_tbl d (tbl_put (int_bytes k)
                (int_bytes (case map_of (tbl s d) (int_bytes k) of
                              None \<Rightarrow> i | Some v \<Rightarrow> deref_int v + i)) (tbl s d)) s)"
  by (auto simp: initialized_def inc_ii32_def txn_begin_def mdb_txn_begin_def
        txn_commit_def mdb_txn_commit_def tbl_def set_tbl_def split: option.splits)

lemma inc_iu64_init:
  "initialized s \<Longrightarrow>
   inc_iu64 (Some d) k i s =
     Inr (0, set_tbl d (tbl_put (int_bytes k)
                (u64_bytes (case map_of (tbl s d) (int_bytes k) of
                              None \<Rightarrow> i | Some v \<Rightarrow> deref_u64 v + i)) (tbl s d)) s)"
  by (auto simp: initialized_def inc_iu64_def txn_begin_def mdb_txn_begin_def
        txn_commit_def mdb_txn_commit_def tbl_def set_tbl_def split: option.splits)

lemma inc_su64_init:
  "initialized s \<Longrightarrow>
   inc_su64 (Some d) k i s =
     Inr (0, set_tbl d (tbl_put (c_text k)
                (u64_bytes (case map_of (tbl s d) (c_text k) of
                              None \<Rightarrow> i | Some v \<Rightarrow> deref_u64 v + i)) (tbl s d)) s)"
  by (auto simp: initialized_def inc_su64_def txn_begin_def mdb_txn_begin_def
        txn_commit_def mdb_txn_commit_def tbl_def set_tbl_def split: option.splits)

lemma ucast_of_nat_64_32: "(ucast (word_of_nat n :: 64 word) :: 32 word) = word_of_nat n"
  by (simp add: unsigned_of_nat word_of_nat_eq_iff min_def)

lemma next_id_eq:
  "(if (word_of_nat n :: 64 word) > 0 then ucast ((word_of_nat n :: 64 word) + 1) else 1)
     = (word_of_nat (n + 1) :: 32 word)"
proof (cases "(word_of_nat n :: 64 word) = 0")
  case True
  have "(word_of_nat n :: 32 word) = ucast (word_of_nat n :: 64 word)"
    by (simp add: ucast_of_nat_64_32)
  with True show ?thesis by simp
next
  case False
  have "(word_of_nat n :: 64 word) + 1 = word_of_nat (n + 1)" by simp
  then have "(ucast ((word_of_nat n :: 64 word) + 1) :: 32 word) = word_of_nat (n + 1)"
    by (simp only: ucast_of_nat_64_32)
  with False show ?thesis by (simp add: word_gt_0)
qed

lemma ins_si32_ai_init:
  "initialized s \<Longrightarrow>
   ins_si32_ai (Some d) k s =
     Inr (word_of_nat (length (tbl s d) + 1),
          set_tbl d (tbl_put (c_text k) (int_bytes (word_of_nat (length (tbl s d) + 1))) (tbl s d)) s)"
  using next_id_eq [of "length (tbl s d)"]
  by (simp add: ins_si32_ai_def db_get_size_init ins_si32_init del: of_nat_add of_nat_Suc)



lemma const_upd [simp]: "(\<lambda>d. c)(x := c) = (\<lambda>d. c)"
  by auto

lemma create_datebase_new:
  "map_of (me_names txn) nm = None \<Longrightarrow>
   create_datebase txn nm MDB_CREATE =
     Inr (Some (fresh_dbi (me_names txn)),
          txn\<lparr>me_names := me_names txn @ [(nm, fresh_dbi (me_names txn))],
              me_dbs := (me_dbs txn)(fresh_dbi (me_names txn) := [])\<rparr>)"
  by (simp add: create_datebase_def mdb_dbi_open_def)

lemma create_environment_tmp: "create_environment None tmp_fs tmp_disk = Inr empty_env"
  by (simp add: create_environment_def mdb_env_create_def mdb_env_set_maxdbs_def
        mdb_env_set_mapsize_def set_env_path_def LMDB_DBPATH_def tmp_fs_def S_IFDIR_def
        mdb_env_open_def tmp_disk_def)

lemma sample_init: "ginit_storage [VISITORS] None tmp_fs tmp_disk uninitialized = Inr sample_state"
  by (simp add: ginit_storage_def create_environment_tmp empty_env_def uninitialized_def txn_begin_def
     mdb_txn_begin_def new_storage_def create_datebase_new fresh_dbi_def
     init_tables_def metrics_table_def get_dbname_def GSMTRC_TOTAL_def txn_commit_def mdb_txn_commit_def
     sample_state_def numeral_eq_Suc)


lemma get_db_loop_zeroed:
  "get_db_loop (replicate n \<lparr>metric = a, dbname = x, store = None\<rparr>) mt = None"
  by (induction n) auto

lemma sample_initialized [simp]: "initialized sample_state"
  by (simp add: initialized_def sample_state_def)

lemma sample_tbl [simp]: "tbl sample_state d = []"
  by (simp add: tbl_def sample_state_def)

lemma sample_get_db [simp]:
  "get_db sample_state VISITORS MTRC_KEYMAP = Some 6"
  "get_db sample_state VISITORS MTRC_ROOTMAP = Some 7"
  "get_db sample_state VISITORS MTRC_DATAMAP = Some 8"
  "get_db sample_state VISITORS MTRC_UNIQMAP = Some 9"
  "get_db sample_state VISITORS MTRC_ROOT = Some 10"
  "get_db sample_state VISITORS MTRC_HITS = Some 11"
  "get_db sample_state VISITORS MTRC_VISITORS = Some 12"
  "get_db sample_state VISITORS MTRC_BW = Some 13"
  "get_db sample_state VISITORS MTRC_CUMTS = Some 14"
  "get_db sample_state VISITORS MTRC_MAXTS = Some 15"
  "get_db sample_state VISITORS MTRC_METHODS = Some 16"
  "get_db sample_state VISITORS MTRC_PROTOCOLS = Some 17"
  "get_db sample_state VISITORS MTRC_AGENTS = Some 18"
  "get_db sample_state VISITORS MTRC_METADATA = Some 19"
  by (simp_all add: get_db_def sample_state_def GSMTRC_TOTAL_def)

lemma sample_get_db_other [simp]: "get_db sample_state (Module i) mt = None"
  by (simp add: get_db_def sample_state_def new_storage_def get_db_loop_zeroed)

lemma sample_ht [simp]:
  "ht_agent_keys sample_state = Some 1"
  "ht_agent_vals sample_state = Some 2"
  "ht_general_stats sample_state = Some 3"
  "ht_hostnames sample_state = Some 4"
  "ht_unique_keys sample_state = Some 5"
  by (simp_all add: sample_state_def)

lemma ht_set_tbl [simp]:
  "ht_agent_keys (set_tbl d t s) = ht_agent_keys s"
  "ht_agent_vals (set_tbl d t s) = ht_agent_vals s"
  "ht_general_stats (set_tbl d t s) = ht_general_stats s"
  "ht_hostnames (set_tbl d t s) = ht_hostnames s"
  "ht_unique_keys (set_tbl d t s) = ht_unique_keys s"
  by (simp_all add: set_tbl_def)

section \<open>Claims\<close>

subsection \<open>C10: a root id of 0 reads as no root\<close>

text \<open>
  C10. For every module and key whose root and rootmap tables resolve, \<^verbatim>\<open>db_get_root\<close>
  returns null whenever the int stored in the root table for the key reads as 0: when the
  key is absent, and also right after \<^verbatim>\<open>db_insert_root\<close> has stored 0 for it (the
  int-by-int getter gives 0 in both cases). Only a nonzero root id is looked up in the
  rootmap table.
\<close>

theorem db_get_root_zero_is_null:
  assumes "initialized s"
    and "get_db s m MTRC_ROOT = Some hr"
    and "get_db s m MTRC_ROOTMAP = Some hm"
  shows "(get_ii32 (Some hr) k s = Inr (0, s) \<longrightarrow> db_get_root m k s = Inr (None, s))
       \<and> (map_of (tbl s hr) (int_bytes k) = None \<longrightarrow> db_get_root m k s = Inr (None, s))
       \<and> (\<exists>s'. db_insert_root m k 0 s = Inr (0, s') \<and> get_ii32 (Some hr) k s' = Inr (0, s')
                \<and> db_get_root m k s' = Inr (None, s'))
       \<and> (\<forall>v. v \<noteq> 0 \<longrightarrow> get_ii32 (Some hr) k s = Inr (v, s)
                \<longrightarrow> db_get_root m k s = get_is32 (Some hm) v s)"
  using assms
  by (auto simp: db_get_root_def db_insert_root_def get_ii32_init ins_ii32_init Let_def
        split: option.splits)

text \<open>
  The witness: the root table holds 0 for key 7 and the rootmap table has a text for
  id 0; \<^verbatim>\<open>db_get_root\<close> still returns null.
\<close>

theorem db_get_root_zero_is_null_witness:
  "db_get_root VISITORS 7
     (set_tbl 10 [(int_bytes 7, int_bytes 0)] (set_tbl 7 [(int_bytes 0, [114, 0])] sample_state))
   = Inr (None, set_tbl 10 [(int_bytes 7, int_bytes 0)] (set_tbl 7 [(int_bytes 0, [114, 0])] sample_state))"
proof -
  let ?s = "set_tbl 10 [(int_bytes 7, int_bytes 0)] (set_tbl 7 [(int_bytes 0, [114, 0])] sample_state)"
  have h1: "initialized ?s" by simp
  have h2: "get_db ?s VISITORS MTRC_ROOT = Some 10" by simp
  have h3: "get_db ?s VISITORS MTRC_ROOTMAP = Some 7" by simp
  have h4: "get_ii32 (Some 10) 7 ?s = Inr (0, ?s)" by (simp add: get_ii32_init)
  from db_get_root_zero_is_null [OF h1 h2 h3, of 7] h4 show ?thesis by blast
qed

subsection \<open>C5: the maximum response time\<close>

lemma serially_fold:
  assumes step: "\<And>x s. I s \<Longrightarrow> \<exists>r s'. f x s = Inr (r, s') \<and> I s' \<and> obs s' = g x (obs s)"
    and "I s"
  shows "\<exists>s'. serially f xs s = Inr s' \<and> I s' \<and> obs s' = fold g xs (obs s)"
  using \<open>I s\<close>
proof (induction xs arbitrary: s)
  case Nil
  then show ?case by simp
next
  case (Cons x xs)
  from step [OF Cons.prems, of x] obtain r s1
    where s1: "f x s = Inr (r, s1)" "I s1" "obs s1 = g x (obs s)" by blast
  from Cons.IH [OF s1(2)] obtain s' where "serially f xs s1 = Inr s'" "I s'" "obs s' = fold g xs (obs s1)"
    by blast
  with s1 show ?case by simp
qed

lemma fold_add_sum_list: "fold (\<lambda>x acc. acc + x) xs (a :: 'a :: comm_monoid_add) = a + sum_list xs"
  by (induction xs arbitrary: a) (simp_all add: add.assoc)

lemma fold_max_Max: "fold (\<lambda>x acc. max acc x) xs (a :: 'a :: linorder) = Max (set (a # xs))"
proof -
  have "fold (\<lambda>x acc. max acc x) xs a = fold max xs a"
    by (rule arg_cong [where f = "\<lambda>h. fold h xs a"]) (auto simp: fun_eq_iff max.commute)
  then show ?thesis by (simp only: Max.set_eq_fold)
qed

lemma db_get_maxts_init:
  "initialized s \<Longrightarrow> get_db s m MTRC_MAXTS = Some d \<Longrightarrow>
   db_get_maxts m k s = Inr (stored_u64 (tbl s d) (int_bytes k), s)"
  by (simp add: db_get_maxts_def get_iu64_init stored_u64_def)

lemma db_insert_maxts_init:
  "initialized s \<Longrightarrow> get_db s m MTRC_MAXTS = Some d \<Longrightarrow>
   db_insert_maxts m k v s =
     Inr (0, if stored_u64 (tbl s d) (int_bytes k) < v
             then set_tbl d (tbl_put (int_bytes k) (u64_bytes v) (tbl s d)) s else s)"
  by (simp add: db_insert_maxts_def get_iu64_init ins_iu64_init stored_u64_def)

lemma db_insert_maxts_step:
  assumes "initialized s \<and> get_db s m MTRC_MAXTS = Some d"
  shows "\<exists>r s'. db_insert_maxts m k v s = Inr (r, s')
           \<and> (initialized s' \<and> get_db s' m MTRC_MAXTS = Some d)
           \<and> stored_u64 (tbl s' d) (int_bytes k) = max (stored_u64 (tbl s d) (int_bytes k)) v"
  using assms by (auto simp: db_insert_maxts_init stored_u64_def max_def)

text \<open>
  C5. For every key of an initialized maxts table: the value \<^verbatim>\<open>db_get_maxts\<close> reads
  is some \<open>cur\<close>, which is 0 when the key is absent; after any serial calls of
  \<^verbatim>\<open>db_insert_maxts\<close> with the candidates \<open>vs\<close> it reads the maximum of \<open>cur\<close> and
  all candidates; and a single call with candidate \<open>v\<close> writes \<open>v\<close> when \<open>cur < v\<close>
  and leaves the state untouched otherwise.
\<close>

theorem db_insert_maxts_tracks_max:
  assumes "initialized s" and "get_db s m MTRC_MAXTS = Some d"
  shows "(\<exists>cur. db_get_maxts m k s = Inr (cur, s)
            \<and> (map_of (tbl s d) (int_bytes k) = None \<longrightarrow> cur = 0)
            \<and> (\<exists>s'. serially (db_insert_maxts m k) vs s = Inr s'
                  \<and> db_get_maxts m k s' = Inr (Max (set (cur # vs)), s'))
            \<and> db_insert_maxts m k v s =
                Inr (0, if cur < v then set_tbl d (tbl_put (int_bytes k) (u64_bytes v) (tbl s d)) s
                        else s))"
proof -
  let ?cur = "stored_u64 (tbl s d) (int_bytes k)"
  have I: "initialized s \<and> get_db s m MTRC_MAXTS = Some d" using assms by simp
  from serially_fold [where I = "\<lambda>s. initialized s \<and> get_db s m MTRC_MAXTS = Some d"
      and f = "db_insert_maxts m k" and obs = "\<lambda>s. stored_u64 (tbl s d) (int_bytes k)"
      and g = "\<lambda>x acc. max acc x", OF db_insert_maxts_step I, of vs]
  obtain s' where s': "serially (db_insert_maxts m k) vs s = Inr s'"
    "initialized s'" "get_db s' m MTRC_MAXTS = Some d"
    "stored_u64 (tbl s' d) (int_bytes k) = fold (\<lambda>x acc. max acc x) vs ?cur"
    by blast
  have "db_get_maxts m k s' = Inr (Max (set (?cur # vs)), s')"
    using s' by (simp add: db_get_maxts_init fold_max_Max)
  moreover have "map_of (tbl s d) (int_bytes k) = None \<longrightarrow> ?cur = 0"
    by (simp add: stored_u64_def)
  ultimately show ?thesis
    using assms s'(1) by (simp add: db_get_maxts_init db_insert_maxts_init)
qed

text \<open>The witness: candidates 5, 2, 9 for an absent key leave 9.\<close>

theorem db_insert_maxts_tracks_max_witness:
  "\<exists>s'. serially (db_insert_maxts VISITORS 3) [5, 2, 9] sample_state = Inr s'
        \<and> db_get_maxts VISITORS 3 s' = Inr (9, s')"
proof -
  have h1: "initialized sample_state" by simp
  have h2: "get_db sample_state VISITORS MTRC_MAXTS = Some 15" by simp
  have h3: "db_get_maxts VISITORS 3 sample_state = Inr (0, sample_state)"
    by (simp add: db_get_maxts_init stored_u64_def)
  have h4: "Max (set [0, 5, 2, 9 :: 64 word]) = 9" by simp
  from db_insert_maxts_tracks_max [OF h1 h2, of 3 "[5, 2, 9]"] obtain cur
    where c: "db_get_maxts VISITORS 3 sample_state = Inr (cur, sample_state)"
      and r: "\<exists>s'. serially (db_insert_maxts VISITORS 3) [5, 2, 9] sample_state = Inr s'
                \<and> db_get_maxts VISITORS 3 s' = Inr (Max (set (cur # [5, 2, 9])), s')"
    by blast
  from c h3 have "cur = 0" by simp
  with r h4 show ?thesis by (simp only:)
qed

subsection \<open>C2: accumulation\<close>

lemma stored_int_put [simp]:
  "stored_int (tbl_put kb (int_bytes v) t) kb = v"
  by (simp add: stored_int_def)

lemma stored_u64_put [simp]:
  "stored_u64 (tbl_put kb (u64_bytes v) t) kb = v"
  by (simp add: stored_u64_def)

lemma db_get_hits_init:
  "initialized s \<Longrightarrow> get_db s m MTRC_HITS = Some d \<Longrightarrow>
   db_get_hits m k s = Inr (stored_int (tbl s d) (int_bytes k), s)"
  by (simp add: db_get_hits_def get_ii32_init stored_int_def)

lemma db_get_visitors_init:
  "initialized s \<Longrightarrow> get_db s m MTRC_VISITORS = Some d \<Longrightarrow>
   db_get_visitors m k s = Inr (stored_int (tbl s d) (int_bytes k), s)"
  by (simp add: db_get_visitors_def get_ii32_init stored_int_def)

lemma db_get_bw_init:
  "initialized s \<Longrightarrow> get_db s m MTRC_BW = Some d \<Longrightarrow>
   db_get_bw m k s = Inr (stored_u64 (tbl s d) (int_bytes k), s)"
  by (simp add: db_get_bw_def get_iu64_init stored_u64_def)

lemma db_get_cumts_init:
  "initialized s \<Longrightarrow> get_db s m MTRC_CUMTS = Some d \<Longrightarrow>
   db_get_cumts m k s = Inr (stored_u64 (tbl s d) (int_bytes k), s)"
  by (simp add: db_get_cumts_def get_iu64_init stored_u64_def)

lemma db_insert_hits_step:
  assumes "initialized s \<and> get_db s m MTRC_HITS = Some d"
  shows "\<exists>r s'. db_insert_hits m k i s = Inr (r, s')
           \<and> (initialized s' \<and> get_db s' m MTRC_HITS = Some d)
           \<and> stored_int (tbl s' d) (int_bytes k) = stored_int (tbl s d) (int_bytes k) + i"
  using assms by (auto simp: db_insert_hits_def inc_ii32_init stored_int_def split: option.splits)

lemma db_insert_visitor_step:
  assumes "initialized s \<and> get_db s m MTRC_VISITORS = Some d"
  shows "\<exists>r s'. db_insert_visitor m k i s = Inr (r, s')
           \<and> (initialized s' \<and> get_db s' m MTRC_VISITORS = Some d)
           \<and> stored_int (tbl s' d) (int_bytes k) = stored_int (tbl s d) (int_bytes k) + i"
  using assms by (auto simp: db_insert_visitor_def inc_ii32_init stored_int_def split: option.splits)

lemma db_insert_bw_step:
  assumes "initialized s \<and> get_db s m MTRC_BW = Some d"
  shows "\<exists>r s'. db_insert_bw m k i s = Inr (r, s')
           \<and> (initialized s' \<and> get_db s' m MTRC_BW = Some d)
           \<and> stored_u64 (tbl s' d) (int_bytes k) = stored_u64 (tbl s d) (int_bytes k) + i"
  using assms by (auto simp: db_insert_bw_def inc_iu64_init stored_u64_def split: option.splits)

lemma db_insert_cumts_step:
  assumes "initialized s \<and> get_db s m MTRC_CUMTS = Some d"
  shows "\<exists>r s'. db_insert_cumts m k i s = Inr (r, s')
           \<and> (initialized s' \<and> get_db s' m MTRC_CUMTS = Some d)
           \<and> stored_u64 (tbl s' d) (int_bytes k) = stored_u64 (tbl s d) (int_bytes k) + i"
  using assms by (auto simp: db_insert_cumts_def inc_iu64_init stored_u64_def split: option.splits)

lemma db_insert_meta_data_step:
  assumes "initialized s \<and> get_db s m MTRC_METADATA = Some d"
  shows "\<exists>r s'. db_insert_meta_data m k i s = Inr (r, s')
           \<and> (initialized s' \<and> get_db s' m MTRC_METADATA = Some d)
           \<and> stored_u64 (tbl s' d) (c_text k) = stored_u64 (tbl s d) (c_text k) + i"
  using assms by (auto simp: db_insert_meta_data_def inc_su64_init stored_u64_def split: option.splits)

lemma unat_sum_list_word:
  "unat (a + sum_list xs :: 'a::len word) = (unat a + sum_list (map unat xs)) mod 2 ^ LENGTH('a)"
proof (induction xs arbitrary: a)
  case Nil
  show ?case by simp
next
  case (Cons x xs)
  have "a + sum_list (x # xs) = (a + x) + sum_list xs" by (simp add: add.assoc)
  then show ?case
    by (simp only: Cons.IH) (simp add: unat_word_ariths mod_simps add.assoc)
qed

lemmas serially_sum = serially_fold [where g = "\<lambda>x acc. acc + x"]

lemma accumulate_word:
  assumes "initialized s"
  shows "(get_db s m MTRC_HITS = Some d \<longrightarrow>
            (\<exists>s'. serially (db_insert_hits m k) ds s = Inr s'
               \<and> db_get_hits m k s' = Inr (stored_int (tbl s d) (int_bytes k) + sum_list ds, s')))
       \<and> (get_db s m MTRC_VISITORS = Some d \<longrightarrow>
            (\<exists>s'. serially (db_insert_visitor m k) ds s = Inr s'
               \<and> db_get_visitors m k s' = Inr (stored_int (tbl s d) (int_bytes k) + sum_list ds, s')))
       \<and> (get_db s m MTRC_BW = Some d \<longrightarrow>
            (\<exists>s'. serially (db_insert_bw m k) us s = Inr s'
               \<and> db_get_bw m k s' = Inr (stored_u64 (tbl s d) (int_bytes k) + sum_list us, s')))
       \<and> (get_db s m MTRC_CUMTS = Some d \<longrightarrow>
            (\<exists>s'. serially (db_insert_cumts m k) us s = Inr s'
               \<and> db_get_cumts m k s' = Inr (stored_u64 (tbl s d) (int_bytes k) + sum_list us, s')))
       \<and> (get_db s m MTRC_METADATA = Some d \<longrightarrow>
            (\<exists>s'. serially (db_insert_meta_data m kb) us s = Inr s'
               \<and> stored_u64 (tbl s' d) (c_text kb) = stored_u64 (tbl s d) (c_text kb) + sum_list us))
       \<and> (map_of (tbl s d) (int_bytes k) = None \<longrightarrow>
            stored_int (tbl s d) (int_bytes k) = 0 \<and> stored_u64 (tbl s d) (int_bytes k) = 0)
       \<and> (map_of (tbl s d) (c_text kb) = None \<longrightarrow> stored_u64 (tbl s d) (c_text kb) = 0)"
proof (intro conjI impI)
  assume d: "get_db s m MTRC_HITS = Some d"
  from serially_sum [where I = "\<lambda>s. initialized s \<and> get_db s m MTRC_HITS = Some d",
      OF db_insert_hits_step, of s k ds] assms d
  show "\<exists>s'. serially (db_insert_hits m k) ds s = Inr s'
          \<and> db_get_hits m k s' = Inr (stored_int (tbl s d) (int_bytes k) + sum_list ds, s')"
    by (auto simp: db_get_hits_init fold_add_sum_list)
next
  assume d: "get_db s m MTRC_VISITORS = Some d"
  from serially_sum [where I = "\<lambda>s. initialized s \<and> get_db s m MTRC_VISITORS = Some d",
      OF db_insert_visitor_step, of s k ds] assms d
  show "\<exists>s'. serially (db_insert_visitor m k) ds s = Inr s'
          \<and> db_get_visitors m k s' = Inr (stored_int (tbl s d) (int_bytes k) + sum_list ds, s')"
    by (auto simp: db_get_visitors_init fold_add_sum_list)
next
  assume d: "get_db s m MTRC_BW = Some d"
  from serially_sum [where I = "\<lambda>s. initialized s \<and> get_db s m MTRC_BW = Some d",
      OF db_insert_bw_step, of s k us] assms d
  show "\<exists>s'. serially (db_insert_bw m k) us s = Inr s'
          \<and> db_get_bw m k s' = Inr (stored_u64 (tbl s d) (int_bytes k) + sum_list us, s')"
    by (auto simp: db_get_bw_init fold_add_sum_list)
next
  assume d: "get_db s m MTRC_CUMTS = Some d"
  from serially_sum [where I = "\<lambda>s. initialized s \<and> get_db s m MTRC_CUMTS = Some d",
      OF db_insert_cumts_step, of s k us] assms d
  show "\<exists>s'. serially (db_insert_cumts m k) us s = Inr s'
          \<and> db_get_cumts m k s' = Inr (stored_u64 (tbl s d) (int_bytes k) + sum_list us, s')"
    by (auto simp: db_get_cumts_init fold_add_sum_list)
next
  assume d: "get_db s m MTRC_METADATA = Some d"
  from serially_sum [where I = "\<lambda>s. initialized s \<and> get_db s m MTRC_METADATA = Some d",
      OF db_insert_meta_data_step, of s kb us] assms d
  show "\<exists>s'. serially (db_insert_meta_data m kb) us s = Inr s'
          \<and> stored_u64 (tbl s' d) (c_text kb) = stored_u64 (tbl s d) (c_text kb) + sum_list us"
    by (auto simp: fold_add_sum_list)
qed (simp_all add: stored_int_def stored_u64_def)

lemma word_sum_as_int:
  "(p + sum_list ds :: 'a::len word) = word_of_int (sint p + sum_list (map sint ds))"
proof -
  have "(word_of_int (sum_list (map sint ds)) :: 'a word) = sum_list ds"
    by (induction ds) simp_all
  then show ?thesis by simp
qed

lemma word_sum_as_nat:
  "(p + sum_list us :: 'a::len word) = word_of_nat (unat p + sum_list (map unat us))"
proof -
  have "(word_of_nat (sum_list (map unat us)) :: 'a word) = sum_list us"
    by (induction us) simp_all
  then show ?thesis by simp
qed

lemma sint_int_in_range:
  "- (2 ^ 31) \<le> i \<Longrightarrow> i < 2 ^ 31 \<Longrightarrow> sint (word_of_int i :: 32 word) = i"
  by (simp add: signed_of_int signed_take_bit_int_eq_self)

lemma unat_nat_in_range:
  "n < 2 ^ 64 \<Longrightarrow> unat (word_of_nat n :: 64 word) = n"
  by (simp add: unat_of_nat)

lemma sint_sum_exact:
  "- (2 ^ 31) \<le> sint p + sum_list (map sint ds) \<Longrightarrow> sint p + sum_list (map sint ds) < 2 ^ 31 \<Longrightarrow>
   sint (p + sum_list ds :: 32 word) = sint p + sum_list (map sint ds)"
  by (simp only: word_sum_as_int [of p ds] sint_int_in_range)

lemma unat_sum_exact:
  "unat p + sum_list (map unat us) < 2 ^ 64 \<Longrightarrow>
   unat (p + sum_list us :: 64 word) = unat p + sum_list (map unat us)"
  by (simp only: word_sum_as_nat [of p us] unat_nat_in_range)

text \<open>
  C2, amended. For every initialized state and every list of increments applied serially
  to one key of a counter table, the value stored afterwards is the value stored before
  (0 when the key was absent) plus the sum of the increments, reduced to the C type of the
  counter: for \<^verbatim>\<open>db_insert_hits\<close> and \<^verbatim>\<open>db_insert_visitor\<close> the \<^verbatim>\<open>int\<close> with the
  low 32 bits of the exact sum, for \<^verbatim>\<open>db_insert_bw\<close>, \<^verbatim>\<open>db_insert_cumts\<close> and
  \<^verbatim>\<open>db_insert_meta_data\<close> the exact sum modulo \<open>2 ^ 64\<close>. It is the exact sum
  whenever that lies in the range of the type. The key of \<^verbatim>\<open>db_insert_meta_data\<close> is
  a string, the key of the other four an \<^verbatim>\<open>int\<close>.
\<close>

theorem accumulate_sums_amended:
  assumes "initialized s"
  shows "(get_db s m MTRC_HITS = Some d \<longrightarrow>
            (\<exists>s' r. serially (db_insert_hits m k) ds s = Inr s' \<and> db_get_hits m k s' = Inr (r, s')
               \<and> r = word_of_int (sint (stored_int (tbl s d) (int_bytes k)) + sum_list (map sint ds))
               \<and> (- (2 ^ 31) \<le> sint (stored_int (tbl s d) (int_bytes k)) + sum_list (map sint ds)
                    \<and> sint (stored_int (tbl s d) (int_bytes k)) + sum_list (map sint ds) < 2 ^ 31
                  \<longrightarrow> sint r = sint (stored_int (tbl s d) (int_bytes k)) + sum_list (map sint ds))))
       \<and> (get_db s m MTRC_VISITORS = Some d \<longrightarrow>
            (\<exists>s' r. serially (db_insert_visitor m k) ds s = Inr s'
               \<and> db_get_visitors m k s' = Inr (r, s')
               \<and> r = word_of_int (sint (stored_int (tbl s d) (int_bytes k)) + sum_list (map sint ds))
               \<and> (- (2 ^ 31) \<le> sint (stored_int (tbl s d) (int_bytes k)) + sum_list (map sint ds)
                    \<and> sint (stored_int (tbl s d) (int_bytes k)) + sum_list (map sint ds) < 2 ^ 31
                  \<longrightarrow> sint r = sint (stored_int (tbl s d) (int_bytes k)) + sum_list (map sint ds))))
       \<and> (get_db s m MTRC_BW = Some d \<longrightarrow>
            (\<exists>s' r. serially (db_insert_bw m k) us s = Inr s' \<and> db_get_bw m k s' = Inr (r, s')
               \<and> r = word_of_nat (unat (stored_u64 (tbl s d) (int_bytes k)) + sum_list (map unat us))
               \<and> (unat (stored_u64 (tbl s d) (int_bytes k)) + sum_list (map unat us) < 2 ^ 64
                  \<longrightarrow> unat r = unat (stored_u64 (tbl s d) (int_bytes k)) + sum_list (map unat us))))
       \<and> (get_db s m MTRC_CUMTS = Some d \<longrightarrow>
            (\<exists>s' r. serially (db_insert_cumts m k) us s = Inr s' \<and> db_get_cumts m k s' = Inr (r, s')
               \<and> r = word_of_nat (unat (stored_u64 (tbl s d) (int_bytes k)) + sum_list (map unat us))
               \<and> (unat (stored_u64 (tbl s d) (int_bytes k)) + sum_list (map unat us) < 2 ^ 64
                  \<longrightarrow> unat r = unat (stored_u64 (tbl s d) (int_bytes k)) + sum_list (map unat us))))
       \<and> (get_db s m MTRC_METADATA = Some d \<longrightarrow>
            (\<exists>s' r. serially (db_insert_meta_data m kb) us s = Inr s'
               \<and> stored_u64 (tbl s' d) (c_text kb) = r
               \<and> r = word_of_nat (unat (stored_u64 (tbl s d) (c_text kb)) + sum_list (map unat us))
               \<and> (unat (stored_u64 (tbl s d) (c_text kb)) + sum_list (map unat us) < 2 ^ 64
                  \<longrightarrow> unat r = unat (stored_u64 (tbl s d) (c_text kb)) + sum_list (map unat us))))
       \<and> (map_of (tbl s d) (int_bytes k) = None \<longrightarrow>
            stored_int (tbl s d) (int_bytes k) = 0 \<and> stored_u64 (tbl s d) (int_bytes k) = 0)
       \<and> (map_of (tbl s d) (c_text kb) = None \<longrightarrow> stored_u64 (tbl s d) (c_text kb) = 0)"
proof -
  note w = accumulate_word [OF assms, of m d k ds us kb]
  have i: "\<And>p. (p + sum_list ds :: 32 word) = word_of_int (sint p + sum_list (map sint ds))"
    by (rule word_sum_as_int)
  have n: "\<And>p. (p + sum_list us :: 64 word) = word_of_nat (unat p + sum_list (map unat us))"
    by (rule word_sum_as_nat)
  have ie: "\<And>p. - (2 ^ 31) \<le> sint p + sum_list (map sint ds) \<and> sint p + sum_list (map sint ds) < 2 ^ 31
      \<longrightarrow> sint (word_of_int (sint p + sum_list (map sint ds)) :: 32 word) = sint p + sum_list (map sint ds)"
    using sint_int_in_range by blast
  have ne: "\<And>p. unat p + sum_list (map unat us) < 2 ^ 64
      \<longrightarrow> unat (word_of_nat (unat p + sum_list (map unat us)) :: 64 word) = unat p + sum_list (map unat us)"
    using unat_nat_in_range by blast
  show ?thesis
    using w ie ne unfolding i n by blast
qed

text \<open>The witness: hits for key 1 by 3, then by 5, read back as 8.\<close>

theorem accumulate_sums_amended_witness:
  "\<exists>s' r. serially (db_insert_hits VISITORS 1) [3, 5] sample_state = Inr s'
        \<and> db_get_hits VISITORS 1 s' = Inr (r, s') \<and> sint r = 8"
proof -
  have h1: "initialized sample_state" by simp
  have h2: "get_db sample_state VISITORS MTRC_HITS = Some 11" by simp
  have h3: "sint (stored_int (tbl sample_state 11) (int_bytes 1)) + sum_list (map sint [3, 5 :: 32 word]) = 8"
    by (simp add: stored_int_def)
  from accumulate_sums_amended [OF h1, of VISITORS 11 1 "[3, 5]"] h2
  obtain s' r where "serially (db_insert_hits VISITORS 1) [3, 5] sample_state = Inr s'"
    "db_get_hits VISITORS 1 s' = Inr (r, s')"
    "- (2 ^ 31) \<le> sint (stored_int (tbl sample_state 11) (int_bytes 1)) + sum_list (map sint [3, 5 :: 32 word])
       \<and> sint (stored_int (tbl sample_state 11) (int_bytes 1)) + sum_list (map sint [3, 5 :: 32 word]) < 2 ^ 31
     \<longrightarrow> sint r = sint (stored_int (tbl sample_state 11) (int_bytes 1)) + sum_list (map sint [3, 5 :: 32 word])"
    by blast
  then show ?thesis unfolding h3 by auto
qed

text \<open>
  C2 as stated fails where the sum leaves the range of the type: hits for key 1 by
  2147483647, then by 1, read back as -2147483648; bandwidth for key 1 by
  \<open>2 ^ 64 - 1\<close>, then by 2, reads back as 1.
\<close>

theorem accumulate_wraps_counterexample:
  "serially (db_insert_hits VISITORS 1) [2147483647, 1] sample_state
     = Inr (set_tbl 11 [(int_bytes 1, int_bytes (- 2147483648))] sample_state)
   \<and> db_get_hits VISITORS 1 (set_tbl 11 [(int_bytes 1, int_bytes (- 2147483648))] sample_state)
     = Inr (- 2147483648, set_tbl 11 [(int_bytes 1, int_bytes (- 2147483648))] sample_state)
   \<and> sint (- 2147483648 :: 32 word) \<noteq> 2147483647 + 1
   \<and> serially (db_insert_bw VISITORS 1) [18446744073709551615, 2] sample_state
     = Inr (set_tbl 13 [(int_bytes 1, u64_bytes 1)] sample_state)
   \<and> db_get_bw VISITORS 1 (set_tbl 13 [(int_bytes 1, u64_bytes 1)] sample_state)
     = Inr (1, set_tbl 13 [(int_bytes 1, u64_bytes 1)] sample_state)
   \<and> unat (1 :: 64 word) \<noteq> 18446744073709551615 + 2"
proof -
  have e1: "(2147483647 + 1 :: 32 word) = - 2147483648" by simp
  have e2: "(18446744073709551615 + 2 :: 64 word) = 1" by simp
  have h: "serially (db_insert_hits VISITORS 1) [2147483647, 1] sample_state
      = Inr (set_tbl 11 [(int_bytes 1, int_bytes (2147483647 + 1))] sample_state)"
    by (simp add: db_insert_hits_def inc_ii32_init)
  have b: "serially (db_insert_bw VISITORS 1) [18446744073709551615, 2] sample_state
      = Inr (set_tbl 13 [(int_bytes 1, u64_bytes (18446744073709551615 + 2))] sample_state)"
    by (simp add: db_insert_bw_def inc_iu64_init)
  have gh: "db_get_hits VISITORS 1 (set_tbl 11 [(int_bytes 1, int_bytes (- 2147483648))] sample_state)
      = Inr (- 2147483648, set_tbl 11 [(int_bytes 1, int_bytes (- 2147483648))] sample_state)"
    by (simp add: db_get_hits_init stored_int_def)
  have gb: "db_get_bw VISITORS 1 (set_tbl 13 [(int_bytes 1, u64_bytes 1)] sample_state)
      = Inr (1, set_tbl 13 [(int_bytes 1, u64_bytes 1)] sample_state)"
    by (simp add: db_get_bw_init stored_u64_def)
  have n1: "sint (- 2147483648 :: 32 word) \<noteq> 2147483647 + 1" by simp
  have n2: "unat (1 :: 64 word) \<noteq> 18446744073709551615 + 2" by simp
  from h [unfolded e1] gh n1 b [unfolded e2] gb n2 show ?thesis by blast
qed

subsection \<open>C1: interning leaves a known key alone\<close>

text \<open>The four interning operations against the table they work on.\<close>

lemma get_si32_stored:
  "initialized s \<Longrightarrow> map_of (tbl s d) (c_text k) = Some b \<Longrightarrow>
   get_si32 (Some d) k s = Inr (deref_int b, s)"
  by (simp add: get_si32_init)

lemma get_si32_absent:
  "initialized s \<Longrightarrow> map_of (tbl s d) (c_text k) = None \<Longrightarrow>
   get_si32 (Some d) k s = Inr (- 1, s)"
  by (simp add: get_si32_init)

lemma intern_known:
  assumes "initialized s" and "map_of (tbl s d) (c_text k) = Some b" and "deref_int b \<noteq> - 1"
  shows "get_db s m MTRC_KEYMAP = Some d \<Longrightarrow> db_insert_keymap m k s = Inr (deref_int b, s)"
    and "ht_unique_keys s = Some d \<Longrightarrow> db_insert_unique_key k s = Inr (deref_int b, s)"
    and "ht_agent_keys s = Some d \<Longrightarrow> db_insert_agent_key k s = Inr (deref_int b, s)"
    and "get_db s m MTRC_UNIQMAP = Some d \<Longrightarrow> db_insert_uniqmap m k s = Inr (0, s)"
  using assms
  by (simp_all add: db_insert_keymap_def db_insert_unique_key_def db_insert_agent_key_def
        db_insert_uniqmap_def get_si32_stored)

lemma intern_fresh:
  assumes "initialized s"
    and "case map_of (tbl s d) (c_text k) of None \<Rightarrow> True | Some b \<Rightarrow> deref_int b = - 1"
  shows "get_db s m MTRC_KEYMAP = Some d \<Longrightarrow>
           db_insert_keymap m k s =
             Inr (word_of_nat (length (tbl s d) + 1), set_tbl d (tbl_put (c_text k) (int_bytes (word_of_nat (length (tbl s d) + 1))) (tbl s d)) s)"
    and "ht_unique_keys s = Some d \<Longrightarrow>
           db_insert_unique_key k s =
             Inr (word_of_nat (length (tbl s d) + 1), set_tbl d (tbl_put (c_text k) (int_bytes (word_of_nat (length (tbl s d) + 1))) (tbl s d)) s)"
    and "ht_agent_keys s = Some d \<Longrightarrow>
           db_insert_agent_key k s =
             Inr (word_of_nat (length (tbl s d) + 1), set_tbl d (tbl_put (c_text k) (int_bytes (word_of_nat (length (tbl s d) + 1))) (tbl s d)) s)"
    and "get_db s m MTRC_UNIQMAP = Some d \<Longrightarrow>
           db_insert_uniqmap m k s =
             Inr (word_of_nat (length (tbl s d) + 1), set_tbl d (tbl_put (c_text k) (int_bytes (word_of_nat (length (tbl s d) + 1))) (tbl s d)) s)"
  using assms
  by (auto simp add: db_insert_keymap_def db_insert_unique_key_def db_insert_agent_key_def
        db_insert_uniqmap_def get_si32_init ins_si32_ai_init
        simp del: of_nat_add of_nat_Suc split: option.splits)

text \<open>
  C1, amended. For every key present in the table with a stored value other than \<open>-1\<close>,
  \<^verbatim>\<open>db_insert_keymap\<close>, \<^verbatim>\<open>db_insert_unique_key\<close> and \<^verbatim>\<open>db_insert_agent_key\<close>
  return the stored value and \<^verbatim>\<open>db_insert_uniqmap\<close> returns 0; all four leave the state,
  and so the table, as it is.
\<close>

theorem insert_if_absent_amended:
  assumes "initialized s"
    and "map_of (tbl s d) (c_text k) = Some b"
    and "deref_int b \<noteq> - 1"
  shows "(get_db s m MTRC_KEYMAP = Some d \<longrightarrow> db_insert_keymap m k s = Inr (deref_int b, s))
       \<and> (ht_unique_keys s = Some d \<longrightarrow> db_insert_unique_key k s = Inr (deref_int b, s))
       \<and> (ht_agent_keys s = Some d \<longrightarrow> db_insert_agent_key k s = Inr (deref_int b, s))
       \<and> (get_db s m MTRC_UNIQMAP = Some d \<longrightarrow> db_insert_uniqmap m k s = Inr (0, s))"
  using intern_known [OF assms] by blast

text \<open>The witness: the keymap table holds id 1 for \<^verbatim>\<open>"a"\<close>.\<close>

theorem insert_if_absent_amended_witness:
  "db_insert_keymap VISITORS [97, 0] (set_tbl 6 [([97], int_bytes 1)] sample_state)
     = Inr (1, set_tbl 6 [([97], int_bytes 1)] sample_state)"
proof -
  let ?s = "set_tbl 6 [([97], int_bytes 1)] sample_state"
  have h1: "initialized ?s" by simp
  have h2: "map_of (tbl ?s 6) (c_text [97, 0]) = Some (int_bytes 1)" by (simp add: c_text_def)
  have h3: "deref_int (int_bytes 1) \<noteq> - 1" by simp
  have h4: "get_db ?s VISITORS MTRC_KEYMAP = Some 6" by simp
  from insert_if_absent_amended [OF h1 h2 h3, of VISITORS] h4 show ?thesis by simp
qed

text \<open>
  C1 as stated fails for \<^verbatim>\<open>db_insert_uniqmap\<close>: the uniqmap table holds 1 for
  \<^verbatim>\<open>"a"\<close>, as the string-keyed lookup shows, and the call returns 0.
\<close>

theorem uniqmap_returns_zero_counterexample:
  "get_si32 (Some 9) [97, 0] (set_tbl 9 [([97], int_bytes 1)] sample_state)
     = Inr (1, set_tbl 9 [([97], int_bytes 1)] sample_state)
   \<and> db_insert_uniqmap VISITORS [97, 0] (set_tbl 9 [([97], int_bytes 1)] sample_state)
     = Inr (0, set_tbl 9 [([97], int_bytes 1)] sample_state)
   \<and> db_insert_uniqmap VISITORS [97, 0] (set_tbl 9 [([97], int_bytes 1)] sample_state)
     \<noteq> Inr (1, set_tbl 9 [([97], int_bytes 1)] sample_state)"
  by (simp add: db_insert_uniqmap_def get_si32_init c_text_def)

subsection \<open>C3: the next id is the table size plus one\<close>

lemma collect_fresh:
  assumes step: "\<And>k s. initialized s \<Longrightarrow> P s \<Longrightarrow> map_of (tbl s d) (c_text k) = None \<Longrightarrow>
      f k s = Inr (word_of_nat (length (tbl s d) + 1),
                   set_tbl d (tbl_put (c_text k) (int_bytes (word_of_nat (length (tbl s d) + 1)))
                     (tbl s d)) s)"
    and keep: "\<And>s t. P s \<Longrightarrow> P (set_tbl d t s)"
  shows "initialized s \<Longrightarrow> P s \<Longrightarrow> distinct (map c_text ks) \<Longrightarrow>
         \<forall>k\<in>set ks. map_of (tbl s d) (c_text k) = None \<Longrightarrow>
         \<exists>s'. collect f ks s =
                 Inr (map (\<lambda>i. word_of_nat (length (tbl s d) + Suc i)) [0..<length ks], s')"
proof (induction ks arbitrary: s)
  case Nil
  then show ?case by simp
next
  case (Cons k ks)
  define n where "n = length (tbl s d)"
  define t where "t = tbl_put (c_text k) (int_bytes (word_of_nat (n + 1))) (tbl s d)"
  define s1 where "s1 = set_tbl d t s"
  have absent: "map_of (tbl s d) (c_text k) = None" using Cons.prems by simp
  have f: "f k s = Inr (word_of_nat (n + 1), s1)"
    using step [OF Cons.prems(1,2) absent] by (simp only: n_def t_def s1_def)
  have t1: "tbl s1 d = t" using Cons.prems(1) by (simp add: s1_def)
  have len: "length t = Suc n" using absent by (simp add: t_def n_def length_tbl_put_fresh)
  have "\<forall>k'\<in>set ks. map_of (tbl s1 d) (c_text k') = None"
  proof
    fix k' assume k': "k' \<in> set ks"
    then have "c_text k' \<in> c_text ` set ks" by (rule imageI)
    moreover have "c_text k \<notin> c_text ` set ks" using Cons.prems(3) by simp
    ultimately have "c_text k' \<noteq> c_text k" by metis
    moreover have "map_of (tbl s d) (c_text k') = None" using Cons.prems(4) k' by simp
    ultimately show "map_of (tbl s1 d) (c_text k') = None" unfolding t1 t_def by simp
  qed
  moreover have "initialized s1" "P s1" "distinct (map c_text ks)"
    using Cons.prems keep by (simp_all add: s1_def)
  ultimately obtain s' where
    c: "collect f ks s1 = Inr (map (\<lambda>i. word_of_nat (length (tbl s1 d) + Suc i)) [0..<length ks], s')"
    using Cons.IH [of s1] by blast
  have e: "[0..<length (k # ks)] = 0 # map Suc [0..<length ks]"
    by (simp add: upt_conv_Cons map_Suc_upt del: upt_Suc)
  have "collect f (k # ks) s =
      Inr (word_of_nat (n + 1) # map (\<lambda>i. word_of_nat (Suc n + Suc i)) [0..<length ks], s')"
    using f c by (simp only: collect.simps t1 len sum.case prod.case)
  also have "word_of_nat (n + 1) # map (\<lambda>i. word_of_nat (Suc n + Suc i)) [0..<length ks]
      = map (\<lambda>i. word_of_nat (n + Suc i)) [0..<length (k # ks)]"
    unfolding e by (simp add: o_def del: of_nat_add of_nat_Suc)
  finally show ?case unfolding n_def by blast
qed

lemma sint_of_nat_small:
  "n < 2 ^ 31 \<Longrightarrow> sint (word_of_nat n :: 32 word) = int n"
  by (simp add: signed_of_nat signed_take_bit_int_eq_self)

lemma keep_get_db: "get_db s m mt = Some d \<Longrightarrow> get_db (set_tbl d' t s) m mt = Some d"
  by simp

lemma intern_absent:
  "initialized s \<Longrightarrow> get_db s m MTRC_KEYMAP = Some d \<Longrightarrow> map_of (tbl s d) (c_text k) = None \<Longrightarrow>
     db_insert_keymap m k s =
       Inr (word_of_nat (length (tbl s d) + 1),
            set_tbl d (tbl_put (c_text k) (int_bytes (word_of_nat (length (tbl s d) + 1))) (tbl s d)) s)"
  "initialized s \<Longrightarrow> ht_unique_keys s = Some d \<Longrightarrow> map_of (tbl s d) (c_text k) = None \<Longrightarrow>
     db_insert_unique_key k s =
       Inr (word_of_nat (length (tbl s d) + 1),
            set_tbl d (tbl_put (c_text k) (int_bytes (word_of_nat (length (tbl s d) + 1))) (tbl s d)) s)"
  "initialized s \<Longrightarrow> ht_agent_keys s = Some d \<Longrightarrow> map_of (tbl s d) (c_text k) = None \<Longrightarrow>
     db_insert_agent_key k s =
       Inr (word_of_nat (length (tbl s d) + 1),
            set_tbl d (tbl_put (c_text k) (int_bytes (word_of_nat (length (tbl s d) + 1))) (tbl s d)) s)"
  "initialized s \<Longrightarrow> get_db s m MTRC_UNIQMAP = Some d \<Longrightarrow> map_of (tbl s d) (c_text k) = None \<Longrightarrow>
     db_insert_uniqmap m k s =
       Inr (word_of_nat (length (tbl s d) + 1),
            set_tbl d (tbl_put (c_text k) (int_bytes (word_of_nat (length (tbl s d) + 1))) (tbl s d)) s)"
  by (simp_all only: intern_fresh option.case)

lemma keymap_fresh_ids:
  assumes "initialized s" and "get_db s m MTRC_KEYMAP = Some d"
    and "distinct (map c_text ks)" and "\<forall>k\<in>set ks. map_of (tbl s d) (c_text k) = None"
  shows "\<exists>s'. collect (db_insert_keymap m) ks s =
           Inr (map (\<lambda>i. word_of_nat (length (tbl s d) + Suc i)) [0..<length ks], s')"
  apply (rule collect_fresh [where P = "\<lambda>s. get_db s m MTRC_KEYMAP = Some d" and f = "db_insert_keymap m", OF _ _ assms])
   apply (erule (2) intern_absent(1))
  apply simp
  done

lemma uniqmap_fresh_ids:
  assumes "initialized s" and "get_db s m MTRC_UNIQMAP = Some d"
    and "distinct (map c_text ks)" and "\<forall>k\<in>set ks. map_of (tbl s d) (c_text k) = None"
  shows "\<exists>s'. collect (db_insert_uniqmap m) ks s =
           Inr (map (\<lambda>i. word_of_nat (length (tbl s d) + Suc i)) [0..<length ks], s')"
  apply (rule collect_fresh [where P = "\<lambda>s. get_db s m MTRC_UNIQMAP = Some d" and f = "db_insert_uniqmap m", OF _ _ assms])
   apply (erule (2) intern_absent(4))
  apply simp
  done

lemma unique_key_fresh_ids:
  assumes "initialized s" and "ht_unique_keys s = Some d"
    and "distinct (map c_text ks)" and "\<forall>k\<in>set ks. map_of (tbl s d) (c_text k) = None"
  shows "\<exists>s'. collect (db_insert_unique_key) ks s =
           Inr (map (\<lambda>i. word_of_nat (length (tbl s d) + Suc i)) [0..<length ks], s')"
  apply (rule collect_fresh [where P = "\<lambda>s. ht_unique_keys s = Some d" and f = "db_insert_unique_key", OF _ _ assms])
   apply (erule (2) intern_absent(2))
  apply simp
  done

lemma agent_key_fresh_ids:
  assumes "initialized s" and "ht_agent_keys s = Some d"
    and "distinct (map c_text ks)" and "\<forall>k\<in>set ks. map_of (tbl s d) (c_text k) = None"
  shows "\<exists>s'. collect (db_insert_agent_key) ks s =
           Inr (map (\<lambda>i. word_of_nat (length (tbl s d) + Suc i)) [0..<length ks], s')"
  apply (rule collect_fresh [where P = "\<lambda>s. ht_agent_keys s = Some d" and f = "db_insert_agent_key", OF _ _ assms])
   apply (erule (2) intern_absent(3))
  apply simp
  done

lemma unat_size_small: "n < 2 ^ 31 - 1 \<Longrightarrow> unat (word_of_nat n :: 64 word) = n"
  by (simp add: unat_of_nat)

lemma sint_ids_upto:
  "n < 2 ^ 31 \<Longrightarrow>
   map sint (map (\<lambda>i. word_of_nat (Suc i) :: 32 word) [0..<n]) = map int [1..<n + 1]"
proof -
  assume n: "n < 2 ^ 31"
  have "map sint (map (\<lambda>i. word_of_nat (Suc i) :: 32 word) [0..<n]) = map (\<lambda>i. int (Suc i)) [0..<n]"
    using n by (auto simp: sint_of_nat_small simp del: of_nat_Suc)
  also have "\<dots> = map int (map Suc [0..<n])" by (simp add: o_def del: of_nat_Suc)
  also have "map Suc [0..<n] = [1..<n + 1]" by (simp add: map_Suc_upt del: upt_Suc)
  finally show ?thesis .
qed

lemma intern_absent_small:
  assumes "initialized s" and "map_of (tbl s d) (c_text k) = None" and "length (tbl s d) < 2 ^ 31 - 1"
  shows "get_db s m MTRC_KEYMAP = Some d \<Longrightarrow>
           \<exists>v. db_insert_keymap m k s = Inr (v, set_tbl d (tbl_put (c_text k) (int_bytes v) (tbl s d)) s)
              \<and> sint v = int (length (tbl s d)) + 1"
    and "ht_unique_keys s = Some d \<Longrightarrow>
           \<exists>v. db_insert_unique_key k s = Inr (v, set_tbl d (tbl_put (c_text k) (int_bytes v) (tbl s d)) s)
              \<and> sint v = int (length (tbl s d)) + 1"
    and "ht_agent_keys s = Some d \<Longrightarrow>
           \<exists>v. db_insert_agent_key k s = Inr (v, set_tbl d (tbl_put (c_text k) (int_bytes v) (tbl s d)) s)
              \<and> sint v = int (length (tbl s d)) + 1"
    and "get_db s m MTRC_UNIQMAP = Some d \<Longrightarrow>
           \<exists>v. db_insert_uniqmap m k s = Inr (v, set_tbl d (tbl_put (c_text k) (int_bytes v) (tbl s d)) s)
              \<and> sint v = int (length (tbl s d)) + 1"
proof -
  have v: "sint (word_of_nat (length (tbl s d) + 1) :: 32 word) = int (length (tbl s d)) + 1"
    using sint_of_nat_small [of "length (tbl s d) + 1"] assms(3) by simp
  show "\<exists>v. db_insert_keymap m k s = Inr (v, set_tbl d (tbl_put (c_text k) (int_bytes v) (tbl s d)) s)
              \<and> sint v = int (length (tbl s d)) + 1" if "get_db s m MTRC_KEYMAP = Some d"
    using intern_absent(1) [OF assms(1) that assms(2)] v by blast
  show "\<exists>v. db_insert_unique_key k s = Inr (v, set_tbl d (tbl_put (c_text k) (int_bytes v) (tbl s d)) s)
              \<and> sint v = int (length (tbl s d)) + 1" if "ht_unique_keys s = Some d"
    using intern_absent(2) [OF assms(1) that assms(2)] v by blast
  show "\<exists>v. db_insert_agent_key k s = Inr (v, set_tbl d (tbl_put (c_text k) (int_bytes v) (tbl s d)) s)
              \<and> sint v = int (length (tbl s d)) + 1" if "ht_agent_keys s = Some d"
    using intern_absent(3) [OF assms(1) that assms(2)] v by blast
  show "\<exists>v. db_insert_uniqmap m k s = Inr (v, set_tbl d (tbl_put (c_text k) (int_bytes v) (tbl s d)) s)
              \<and> sint v = int (length (tbl s d)) + 1" if "get_db s m MTRC_UNIQMAP = Some d"
    using intern_absent(4) [OF assms(1) that assms(2)] v by blast
qed

lemma fresh_ids_from_empty:
  assumes "initialized s" and "tbl s d = []" and "distinct (map c_text ks)" and "length ks < 2 ^ 31"
  shows "get_db s m MTRC_KEYMAP = Some d \<Longrightarrow>
           \<exists>ids s'. collect (db_insert_keymap m) ks s = Inr (ids, s')
              \<and> map sint ids = map int [1..<length ks + 1]"
    and "ht_unique_keys s = Some d \<Longrightarrow>
           \<exists>ids s'. collect db_insert_unique_key ks s = Inr (ids, s')
              \<and> map sint ids = map int [1..<length ks + 1]"
    and "ht_agent_keys s = Some d \<Longrightarrow>
           \<exists>ids s'. collect db_insert_agent_key ks s = Inr (ids, s')
              \<and> map sint ids = map int [1..<length ks + 1]"
    and "get_db s m MTRC_UNIQMAP = Some d \<Longrightarrow>
           \<exists>ids s'. collect (db_insert_uniqmap m) ks s = Inr (ids, s')
              \<and> map sint ids = map int [1..<length ks + 1]"
proof -
  have a: "\<forall>k\<in>set ks. map_of (tbl s d) (c_text k) = None" by (simp add: assms(2))
  note i = sint_ids_upto [OF assms(4)]
  show "\<exists>ids s'. collect (db_insert_keymap m) ks s = Inr (ids, s')
              \<and> map sint ids = map int [1..<length ks + 1]" if p: "get_db s m MTRC_KEYMAP = Some d"
    using keymap_fresh_ids [OF assms(1) p assms(3) a] i unfolding assms(2) by auto
  show "\<exists>ids s'. collect db_insert_unique_key ks s = Inr (ids, s')
              \<and> map sint ids = map int [1..<length ks + 1]" if p: "ht_unique_keys s = Some d"
    using unique_key_fresh_ids [OF assms(1) p assms(3) a] i unfolding assms(2) by auto
  show "\<exists>ids s'. collect db_insert_agent_key ks s = Inr (ids, s')
              \<and> map sint ids = map int [1..<length ks + 1]" if p: "ht_agent_keys s = Some d"
    using agent_key_fresh_ids [OF assms(1) p assms(3) a] i unfolding assms(2) by auto
  show "\<exists>ids s'. collect (db_insert_uniqmap m) ks s = Inr (ids, s')
              \<and> map sint ids = map int [1..<length ks + 1]" if p: "get_db s m MTRC_UNIQMAP = Some d"
    using uniqmap_fresh_ids [OF assms(1) p assms(3) a] i unfolding assms(2) by auto
qed

lemma length_run_of_b [simp]: "length (run_of_b n) = n"
  by (simp add: run_of_b_def)

lemma run_of_b_no_a: "map_of (run_of_b n) [97] = None"
  by (auto simp: run_of_b_def map_of_eq_None_iff)

lemma ids_ok_run_of_b: "n < 2 ^ 31 \<Longrightarrow> ids_ok (run_of_b n)"
  by (auto simp: ids_ok_def run_of_b_def list_all_iff sint_of_nat_small simp del: of_nat_Suc)

lemma big_id: "(word_of_nat (2 ^ 31 - 1 + 1) :: 32 word) = - 2147483648"
  by simp

text \<open>
  C3, amended. For every initialized state and every key absent from an interning table
  that holds fewer than \<open>2 ^ 31 - 1\<close> entries, each of the four interning operations
  stores for the key, and returns, the table size plus one, where the size is what
  \<^verbatim>\<open>db_get_size\<close> reports. On an empty table, fewer than \<open>2 ^ 31\<close> keys with
  pairwise different texts interned one after the other get the ids 1, 2, 3 and so on.
\<close>

theorem intern_assigns_size_plus_one_amended:
  assumes "initialized s"
    and "map_of (tbl s d) (c_text k) = None"
    and "length (tbl s d) < 2 ^ 31 - 1"
  shows "(\<exists>sz. db_get_size (Some d) s = Inr (sz, s) \<and> unat sz = length (tbl s d))
       \<and> (get_db s m MTRC_KEYMAP = Some d \<longrightarrow>
            (\<exists>v. db_insert_keymap m k s
                    = Inr (v, set_tbl d (tbl_put (c_text k) (int_bytes v) (tbl s d)) s)
               \<and> sint v = int (length (tbl s d)) + 1))
       \<and> (get_db s m MTRC_UNIQMAP = Some d \<longrightarrow>
            (\<exists>v. db_insert_uniqmap m k s
                    = Inr (v, set_tbl d (tbl_put (c_text k) (int_bytes v) (tbl s d)) s)
               \<and> sint v = int (length (tbl s d)) + 1))
       \<and> (ht_unique_keys s = Some d \<longrightarrow>
            (\<exists>v. db_insert_unique_key k s
                    = Inr (v, set_tbl d (tbl_put (c_text k) (int_bytes v) (tbl s d)) s)
               \<and> sint v = int (length (tbl s d)) + 1))
       \<and> (ht_agent_keys s = Some d \<longrightarrow>
            (\<exists>v. db_insert_agent_key k s
                    = Inr (v, set_tbl d (tbl_put (c_text k) (int_bytes v) (tbl s d)) s)
               \<and> sint v = int (length (tbl s d)) + 1))
       \<and> (tbl s d = [] \<longrightarrow> distinct (map c_text ks) \<longrightarrow> length ks < 2 ^ 31 \<longrightarrow>
            (get_db s m MTRC_KEYMAP = Some d \<longrightarrow>
               (\<exists>ids s'. collect (db_insert_keymap m) ks s = Inr (ids, s')
                  \<and> map sint ids = map int [1..<length ks + 1]))
          \<and> (get_db s m MTRC_UNIQMAP = Some d \<longrightarrow>
               (\<exists>ids s'. collect (db_insert_uniqmap m) ks s = Inr (ids, s')
                  \<and> map sint ids = map int [1..<length ks + 1]))
          \<and> (ht_unique_keys s = Some d \<longrightarrow>
               (\<exists>ids s'. collect db_insert_unique_key ks s = Inr (ids, s')
                  \<and> map sint ids = map int [1..<length ks + 1]))
          \<and> (ht_agent_keys s = Some d \<longrightarrow>
               (\<exists>ids s'. collect db_insert_agent_key ks s = Inr (ids, s')
                  \<and> map sint ids = map int [1..<length ks + 1])))"
proof -
  have sz: "\<exists>sz. db_get_size (Some d) s = Inr (sz, s) \<and> unat sz = length (tbl s d)"
    using db_get_size_init [OF assms(1), of d] unat_size_small [OF assms(3)] by simp
  note one = intern_absent_small [OF assms]
  show ?thesis
  proof (intro conjI impI)
    show "\<exists>sz. db_get_size (Some d) s = Inr (sz, s) \<and> unat sz = length (tbl s d)" by (rule sz)
  qed (erule one fresh_ids_from_empty [OF assms(1)]; assumption)+
qed

text \<open>
  The witness: in the agent keys table \<^verbatim>\<open>"firefox"\<close> gets id 1, and
  \<^verbatim>\<open>"firefox"\<close>, \<^verbatim>\<open>"chrome"\<close> in this order get 1 and 2.
\<close>

theorem intern_assigns_size_plus_one_amended_witness:
  "(\<exists>v. db_insert_agent_key [102, 105, 114, 101, 102, 111, 120, 0] sample_state
           = Inr (v, set_tbl 1 (tbl_put [102, 105, 114, 101, 102, 111, 120] (int_bytes v) [])
                       sample_state)
        \<and> sint v = 1)
   \<and> (\<exists>ids s'. collect db_insert_agent_key
              [[102, 105, 114, 101, 102, 111, 120, 0], [99, 104, 114, 111, 109, 101, 0]] sample_state
            = Inr (ids, s') \<and> map sint ids = [1, 2])"
proof -
  let ?firefox = "[102, 105, 114, 101, 102, 111, 120, 0] :: byte list"
  let ?chrome = "[99, 104, 114, 111, 109, 101, 0] :: byte list"
  have h1: "initialized sample_state" by simp
  have h2: "map_of (tbl sample_state 1) (c_text ?firefox) = None" by simp
  have h3: "length (tbl sample_state 1) < 2 ^ 31 - 1" by simp
  have h4: "ht_agent_keys sample_state = Some 1" by simp
  have h5: "tbl sample_state 1 = []" by simp
  have h6: "distinct (map c_text [?firefox, ?chrome])" by (simp add: c_text_def)
  have h7: "length [?firefox, ?chrome] < 2 ^ 31" by simp
  have h8: "c_text ?firefox = [102, 105, 114, 101, 102, 111, 120]" by (simp add: c_text_def)
  have h9: "map int [1..<length [?firefox, ?chrome] + 1] = [1, 2]" by (simp add: upt_conv_Cons)
  have h10: "int (length ([] :: table)) + 1 = 1" by simp
  from intern_assigns_size_plus_one_amended [OF h1 h2 h3, of VISITORS "[?firefox, ?chrome]"]
    h4 h5 h6 h7
  have "\<exists>v. db_insert_agent_key ?firefox sample_state
            = Inr (v, set_tbl 1 (tbl_put (c_text ?firefox) (int_bytes v) (tbl sample_state 1))
                        sample_state)
          \<and> sint v = int (length (tbl sample_state 1)) + 1"
    and "\<exists>ids s'. collect db_insert_agent_key [?firefox, ?chrome] sample_state = Inr (ids, s')
          \<and> map sint ids = map int [1..<length [?firefox, ?chrome] + 1]"
    by blast+
  then show ?thesis unfolding h8 h9 h5 h10 by blast
qed

text \<open>
  C3 as stated fails once the table holds \<open>2 ^ 31 - 1\<close> entries: the size plus one is
  2147483648, and the id returned and stored for the absent key is -2147483648.
\<close>

theorem next_id_wraps_counterexample:
  "db_get_size (Some 6) big_state = Inr (2147483647, big_state)
   \<and> map_of (tbl big_state 6) (c_text [97, 0]) = None
   \<and> db_insert_keymap VISITORS [97, 0] big_state
       = Inr (- 2147483648,
              set_tbl 6 (tbl_put [97] (int_bytes (- 2147483648)) (run_of_b (2 ^ 31 - 1))) big_state)
   \<and> sint (- 2147483648 :: 32 word) \<noteq> 2147483647 + 1"
proof -
  have i: "initialized big_state" by (simp add: big_state_def)
  have t: "tbl big_state 6 = run_of_b (2 ^ 31 - 1)" by (simp add: big_state_def)
  have g: "get_db big_state VISITORS MTRC_KEYMAP = Some 6" by (simp add: big_state_def)
  have c: "c_text [97, 0] = [97]" by (simp add: c_text_def)
  have a: "map_of (tbl big_state 6) (c_text [97, 0]) = None"
    unfolding t c by (rule run_of_b_no_a)
  have z: "(word_of_nat (2 ^ 31 - 1) :: 64 word) = 2147483647" by simp
  have "db_get_size (Some 6) big_state = Inr (2147483647, big_state)"
    using db_get_size_init [OF i, of 6] unfolding t length_run_of_b z .
  moreover have "db_insert_keymap VISITORS [97, 0] big_state
       = Inr (- 2147483648,
              set_tbl 6 (tbl_put [97] (int_bytes (- 2147483648)) (run_of_b (2 ^ 31 - 1))) big_state)"
    using intern_absent(1) [OF i g a] unfolding t c length_run_of_b big_id .
  moreover have "sint (- 2147483648 :: 32 word) \<noteq> 2147483647 + 1" by simp
  ultimately show ?thesis using a by blast
qed

subsection \<open>C4: interning again\<close>

lemma collect_keeps:
  assumes known: "\<And>k' s b. initialized s \<Longrightarrow> P s \<Longrightarrow> map_of (tbl s d) (c_text k') = Some b \<Longrightarrow>
      deref_int b \<noteq> - 1 \<Longrightarrow> \<exists>r. f k' s = Inr (r, s)"
    and fresh: "\<And>k' s. initialized s \<Longrightarrow> P s \<Longrightarrow>
      (case map_of (tbl s d) (c_text k') of None \<Rightarrow> True | Some b \<Rightarrow> deref_int b = - 1) \<Longrightarrow>
      \<exists>r v. f k' s = Inr (r, set_tbl d (tbl_put (c_text k') (int_bytes v) (tbl s d)) s)"
    and keep: "\<And>s t. P s \<Longrightarrow> P (set_tbl d t s)"
  shows "initialized s \<Longrightarrow> P s \<Longrightarrow> map_of (tbl s d) (c_text k) = Some b \<Longrightarrow> deref_int b \<noteq> - 1 \<Longrightarrow>
         \<exists>rs s'. collect f ks s = Inr (rs, s') \<and> initialized s' \<and> P s'
                  \<and> map_of (tbl s' d) (c_text k) = Some b"
proof (induction ks arbitrary: s)
  case Nil
  then show ?case by simp
next
  case (Cons k' ks)
  have "\<exists>r s1. f k' s = Inr (r, s1) \<and> initialized s1 \<and> P s1 \<and> map_of (tbl s1 d) (c_text k) = Some b"
  proof (cases "case map_of (tbl s d) (c_text k') of None \<Rightarrow> True | Some b' \<Rightarrow> deref_int b' = - 1")
    case True
    then have ne: "c_text k' \<noteq> c_text k" using Cons.prems(3,4) by auto
    from fresh [OF Cons.prems(1,2) True] obtain r v
      where "f k' s = Inr (r, set_tbl d (tbl_put (c_text k') (int_bytes v) (tbl s d)) s)" by blast
    then show ?thesis using Cons.prems ne keep by auto
  next
    case False
    then obtain b' where "map_of (tbl s d) (c_text k') = Some b'" "deref_int b' \<noteq> - 1"
      by (auto split: option.splits)
    from known [OF Cons.prems(1,2) this] show ?thesis using Cons.prems by auto
  qed
  then obtain r s1 where s1: "f k' s = Inr (r, s1)" "initialized s1" "P s1"
      "map_of (tbl s1 d) (c_text k) = Some b" by blast
  from Cons.IH [OF s1(2,3,4) Cons.prems(4)] obtain rs s' where
    "collect f ks s1 = Inr (rs, s')" "initialized s'" "P s'" "map_of (tbl s' d) (c_text k) = Some b"
    by blast
  with s1(1) show ?case by simp
qed

lemma intern_first_call:
  assumes "initialized s"
  shows "get_db s m MTRC_KEYMAP = Some d \<Longrightarrow> db_insert_keymap m k s = Inr (v, s1) \<Longrightarrow> v \<noteq> - 1 \<Longrightarrow>
           initialized s1 \<and> get_db s1 m MTRC_KEYMAP = Some d
           \<and> (\<exists>b. map_of (tbl s1 d) (c_text k) = Some b \<and> deref_int b = v)"
    and "ht_unique_keys s = Some d \<Longrightarrow> db_insert_unique_key k s = Inr (v, s1) \<Longrightarrow> v \<noteq> - 1 \<Longrightarrow>
           initialized s1 \<and> ht_unique_keys s1 = Some d
           \<and> (\<exists>b. map_of (tbl s1 d) (c_text k) = Some b \<and> deref_int b = v)"
    and "ht_agent_keys s = Some d \<Longrightarrow> db_insert_agent_key k s = Inr (v, s1) \<Longrightarrow> v \<noteq> - 1 \<Longrightarrow>
           initialized s1 \<and> ht_agent_keys s1 = Some d
           \<and> (\<exists>b. map_of (tbl s1 d) (c_text k) = Some b \<and> deref_int b = v)"
    and "get_db s m MTRC_UNIQMAP = Some d \<Longrightarrow> db_insert_uniqmap m k s = Inr (v, s1) \<Longrightarrow> v \<noteq> - 1 \<Longrightarrow>
           initialized s1 \<and> get_db s1 m MTRC_UNIQMAP = Some d
           \<and> (\<exists>b. map_of (tbl s1 d) (c_text k) = Some b \<and> deref_int b \<noteq> - 1)"
  using assms
  by (auto simp add: db_insert_keymap_def db_insert_unique_key_def db_insert_agent_key_def
        db_insert_uniqmap_def get_si32_init ins_si32_ai_init
        simp del: of_nat_add of_nat_Suc split: option.splits if_splits)

lemma intern_known_ex:
  "initialized s \<Longrightarrow> get_db s m MTRC_KEYMAP = Some d \<Longrightarrow> map_of (tbl s d) (c_text k) = Some b \<Longrightarrow>
     deref_int b \<noteq> - 1 \<Longrightarrow> \<exists>r. db_insert_keymap m k s = Inr (r, s)"
  "initialized s \<Longrightarrow> ht_unique_keys s = Some d \<Longrightarrow> map_of (tbl s d) (c_text k) = Some b \<Longrightarrow>
     deref_int b \<noteq> - 1 \<Longrightarrow> \<exists>r. db_insert_unique_key k s = Inr (r, s)"
  "initialized s \<Longrightarrow> ht_agent_keys s = Some d \<Longrightarrow> map_of (tbl s d) (c_text k) = Some b \<Longrightarrow>
     deref_int b \<noteq> - 1 \<Longrightarrow> \<exists>r. db_insert_agent_key k s = Inr (r, s)"
  "initialized s \<Longrightarrow> get_db s m MTRC_UNIQMAP = Some d \<Longrightarrow> map_of (tbl s d) (c_text k) = Some b \<Longrightarrow>
     deref_int b \<noteq> - 1 \<Longrightarrow> \<exists>r. db_insert_uniqmap m k s = Inr (r, s)"
  by (simp_all add: intern_known)

lemma intern_fresh_ex:
  "initialized s \<Longrightarrow> get_db s m MTRC_KEYMAP = Some d \<Longrightarrow>
     (case map_of (tbl s d) (c_text k) of None \<Rightarrow> True | Some b \<Rightarrow> deref_int b = - 1) \<Longrightarrow>
     \<exists>r v. db_insert_keymap m k s = Inr (r, set_tbl d (tbl_put (c_text k) (int_bytes v) (tbl s d)) s)"
  "initialized s \<Longrightarrow> ht_unique_keys s = Some d \<Longrightarrow>
     (case map_of (tbl s d) (c_text k) of None \<Rightarrow> True | Some b \<Rightarrow> deref_int b = - 1) \<Longrightarrow>
     \<exists>r v. db_insert_unique_key k s = Inr (r, set_tbl d (tbl_put (c_text k) (int_bytes v) (tbl s d)) s)"
  "initialized s \<Longrightarrow> ht_agent_keys s = Some d \<Longrightarrow>
     (case map_of (tbl s d) (c_text k) of None \<Rightarrow> True | Some b \<Rightarrow> deref_int b = - 1) \<Longrightarrow>
     \<exists>r v. db_insert_agent_key k s = Inr (r, set_tbl d (tbl_put (c_text k) (int_bytes v) (tbl s d)) s)"
  "initialized s \<Longrightarrow> get_db s m MTRC_UNIQMAP = Some d \<Longrightarrow>
     (case map_of (tbl s d) (c_text k) of None \<Rightarrow> True | Some b \<Rightarrow> deref_int b = - 1) \<Longrightarrow>
     \<exists>r v. db_insert_uniqmap m k s = Inr (r, set_tbl d (tbl_put (c_text k) (int_bytes v) (tbl s d)) s)"
  by (metis intern_fresh(1), metis intern_fresh(2), metis intern_fresh(3), metis intern_fresh(4))

lemma keymap_keeps:
  assumes "initialized s" and "get_db s m MTRC_KEYMAP = Some d"
    and "map_of (tbl s d) (c_text k) = Some b" and "deref_int b \<noteq> - 1"
  shows "\<exists>rs s'. collect (db_insert_keymap m) ks s = Inr (rs, s') \<and> initialized s' \<and> get_db s' m MTRC_KEYMAP = Some d
           \<and> map_of (tbl s' d) (c_text k) = Some b"
  apply (rule collect_keeps [where P = "\<lambda>s. get_db s m MTRC_KEYMAP = Some d" and f = "db_insert_keymap m", OF _ _ _ assms])
    apply (erule (3) intern_known_ex(1))
   apply (erule (2) intern_fresh_ex(1))
  apply simp
  done

lemma unique_key_keeps:
  assumes "initialized s" and "ht_unique_keys s = Some d"
    and "map_of (tbl s d) (c_text k) = Some b" and "deref_int b \<noteq> - 1"
  shows "\<exists>rs s'. collect (db_insert_unique_key) ks s = Inr (rs, s') \<and> initialized s' \<and> ht_unique_keys s' = Some d
           \<and> map_of (tbl s' d) (c_text k) = Some b"
  apply (rule collect_keeps [where P = "\<lambda>s. ht_unique_keys s = Some d" and f = "db_insert_unique_key", OF _ _ _ assms])
    apply (erule (3) intern_known_ex(2))
   apply (erule (2) intern_fresh_ex(2))
  apply simp
  done

lemma agent_key_keeps:
  assumes "initialized s" and "ht_agent_keys s = Some d"
    and "map_of (tbl s d) (c_text k) = Some b" and "deref_int b \<noteq> - 1"
  shows "\<exists>rs s'. collect (db_insert_agent_key) ks s = Inr (rs, s') \<and> initialized s' \<and> ht_agent_keys s' = Some d
           \<and> map_of (tbl s' d) (c_text k) = Some b"
  apply (rule collect_keeps [where P = "\<lambda>s. ht_agent_keys s = Some d" and f = "db_insert_agent_key", OF _ _ _ assms])
    apply (erule (3) intern_known_ex(3))
   apply (erule (2) intern_fresh_ex(3))
  apply simp
  done

lemma uniqmap_keeps:
  assumes "initialized s" and "get_db s m MTRC_UNIQMAP = Some d"
    and "map_of (tbl s d) (c_text k) = Some b" and "deref_int b \<noteq> - 1"
  shows "\<exists>rs s'. collect (db_insert_uniqmap m) ks s = Inr (rs, s') \<and> initialized s' \<and> get_db s' m MTRC_UNIQMAP = Some d
           \<and> map_of (tbl s' d) (c_text k) = Some b"
  apply (rule collect_keeps [where P = "\<lambda>s. get_db s m MTRC_UNIQMAP = Some d" and f = "db_insert_uniqmap m", OF _ _ _ assms])
    apply (erule (3) intern_known_ex(4))
   apply (erule (2) intern_fresh_ex(4))
  apply simp
  done

text \<open>
  C4, amended. Once a call of \<^verbatim>\<open>db_insert_keymap\<close>, \<^verbatim>\<open>db_insert_unique_key\<close> or
  \<^verbatim>\<open>db_insert_agent_key\<close> on a key has returned an id \<open>v\<close> other than \<open>-1\<close>, then
  after any further serial calls of the operation, on any keys, a call on the key returns
  \<open>v\<close> again. For \<^verbatim>\<open>db_insert_uniqmap\<close> the id stored for the key stays the same
  as well, but every later call on the key returns 0.
\<close>

theorem intern_idempotent_amended:
  assumes "initialized s" and "v \<noteq> - 1"
  shows "(get_db s m MTRC_KEYMAP = Some d \<longrightarrow> db_insert_keymap m k s = Inr (v, s1) \<longrightarrow>
            (\<exists>rs s2. collect (db_insert_keymap m) ks s1 = Inr (rs, s2)
                \<and> db_insert_keymap m k s2 = Inr (v, s2)))
       \<and> (ht_unique_keys s = Some d \<longrightarrow> db_insert_unique_key k s = Inr (v, s1) \<longrightarrow>
            (\<exists>rs s2. collect db_insert_unique_key ks s1 = Inr (rs, s2)
                \<and> db_insert_unique_key k s2 = Inr (v, s2)))
       \<and> (ht_agent_keys s = Some d \<longrightarrow> db_insert_agent_key k s = Inr (v, s1) \<longrightarrow>
            (\<exists>rs s2. collect db_insert_agent_key ks s1 = Inr (rs, s2)
                \<and> db_insert_agent_key k s2 = Inr (v, s2)))
       \<and> (get_db s m MTRC_UNIQMAP = Some d \<longrightarrow> db_insert_uniqmap m k s = Inr (v, s1) \<longrightarrow>
            (\<exists>rs s2 i. collect (db_insert_uniqmap m) ks s1 = Inr (rs, s2)
                \<and> db_insert_uniqmap m k s2 = Inr (0, s2)
                \<and> get_si32 (Some d) k s1 = Inr (i, s1) \<and> get_si32 (Some d) k s2 = Inr (i, s2)
                \<and> i \<noteq> - 1))"
proof (intro conjI impI)
  assume p: "get_db s m MTRC_KEYMAP = Some d" and c: "db_insert_keymap m k s = Inr (v, s1)"
  from intern_first_call(1) [OF assms(1) p c assms(2)] obtain b where
    j: "initialized s1" "get_db s1 m MTRC_KEYMAP = Some d"
       "map_of (tbl s1 d) (c_text k) = Some b" "deref_int b = v" by blast
  from keymap_keeps [OF j(1,2,3), of ks] j(4) assms(2)
  obtain rs s2 where r: "collect (db_insert_keymap m) ks s1 = Inr (rs, s2)" "initialized s2"
    "get_db s2 m MTRC_KEYMAP = Some d" "map_of (tbl s2 d) (c_text k) = Some b" by blast
  have "db_insert_keymap m k s2 = Inr (v, s2)"
    using intern_known(1) [OF r(2,4) _ r(3)] j(4) assms(2) by simp
  with r(1) show "\<exists>rs s2. collect (db_insert_keymap m) ks s1 = Inr (rs, s2)
      \<and> db_insert_keymap m k s2 = Inr (v, s2)" by blast
next
  assume p: "ht_unique_keys s = Some d" and c: "db_insert_unique_key k s = Inr (v, s1)"
  from intern_first_call(2) [OF assms(1) p c assms(2)] obtain b where
    j: "initialized s1" "ht_unique_keys s1 = Some d"
       "map_of (tbl s1 d) (c_text k) = Some b" "deref_int b = v" by blast
  from unique_key_keeps [OF j(1,2,3), of ks] j(4) assms(2)
  obtain rs s2 where r: "collect db_insert_unique_key ks s1 = Inr (rs, s2)" "initialized s2"
    "ht_unique_keys s2 = Some d" "map_of (tbl s2 d) (c_text k) = Some b" by blast
  have "db_insert_unique_key k s2 = Inr (v, s2)"
    using intern_known(2) [OF r(2,4) _ r(3)] j(4) assms(2) by simp
  with r(1) show "\<exists>rs s2. collect db_insert_unique_key ks s1 = Inr (rs, s2)
      \<and> db_insert_unique_key k s2 = Inr (v, s2)" by blast
next
  assume p: "ht_agent_keys s = Some d" and c: "db_insert_agent_key k s = Inr (v, s1)"
  from intern_first_call(3) [OF assms(1) p c assms(2)] obtain b where
    j: "initialized s1" "ht_agent_keys s1 = Some d"
       "map_of (tbl s1 d) (c_text k) = Some b" "deref_int b = v" by blast
  from agent_key_keeps [OF j(1,2,3), of ks] j(4) assms(2)
  obtain rs s2 where r: "collect db_insert_agent_key ks s1 = Inr (rs, s2)" "initialized s2"
    "ht_agent_keys s2 = Some d" "map_of (tbl s2 d) (c_text k) = Some b" by blast
  have "db_insert_agent_key k s2 = Inr (v, s2)"
    using intern_known(3) [OF r(2,4) _ r(3)] j(4) assms(2) by simp
  with r(1) show "\<exists>rs s2. collect db_insert_agent_key ks s1 = Inr (rs, s2)
      \<and> db_insert_agent_key k s2 = Inr (v, s2)" by blast
next
  assume p: "get_db s m MTRC_UNIQMAP = Some d" and c: "db_insert_uniqmap m k s = Inr (v, s1)"
  from intern_first_call(4) [OF assms(1) p c assms(2)] obtain b where
    j: "initialized s1" "get_db s1 m MTRC_UNIQMAP = Some d"
       "map_of (tbl s1 d) (c_text k) = Some b" "deref_int b \<noteq> - 1" by blast
  from uniqmap_keeps [OF j, of ks]
  obtain rs s2 where r: "collect (db_insert_uniqmap m) ks s1 = Inr (rs, s2)" "initialized s2"
    "get_db s2 m MTRC_UNIQMAP = Some d" "map_of (tbl s2 d) (c_text k) = Some b" by blast
  have "db_insert_uniqmap m k s2 = Inr (0, s2)"
    using intern_known(4) [OF r(2,4) j(4) r(3)] .
  moreover have "get_si32 (Some d) k s1 = Inr (deref_int b, s1)"
    using j by (simp add: get_si32_stored)
  moreover have "get_si32 (Some d) k s2 = Inr (deref_int b, s2)"
    using r by (simp add: get_si32_stored)
  ultimately show "\<exists>rs s2 i. collect (db_insert_uniqmap m) ks s1 = Inr (rs, s2)
      \<and> db_insert_uniqmap m k s2 = Inr (0, s2)
      \<and> get_si32 (Some d) k s1 = Inr (i, s1) \<and> get_si32 (Some d) k s2 = Inr (i, s2) \<and> i \<noteq> - 1"
    using r(1) j(4) by blast
qed

text \<open>
  The witness: \<^verbatim>\<open>"a"\<close> is interned first and gets 1; after \<^verbatim>\<open>"b"\<close> and
  \<^verbatim>\<open>"a"\<close> again it still gets 1.
\<close>

theorem intern_idempotent_amended_witness:
  "\<exists>rs s2. collect (db_insert_keymap VISITORS) [[98, 0], [97, 0]]
              (set_tbl 6 [([97], int_bytes 1)] sample_state) = Inr (rs, s2)
          \<and> db_insert_keymap VISITORS [97, 0] s2 = Inr (1, s2)"
proof -
  have h1: "initialized sample_state" by simp
  have h2: "(1 :: 32 word) \<noteq> - 1" by simp
  have h3: "get_db sample_state VISITORS MTRC_KEYMAP = Some 6" by simp
  have h4: "db_insert_keymap VISITORS [97, 0] sample_state
              = Inr (1, set_tbl 6 [([97], int_bytes 1)] sample_state)"
    by (simp add: db_insert_keymap_def get_si32_init ins_si32_ai_init c_text_def)
  from intern_idempotent_amended [OF h1 h2, of VISITORS 6 "[97, 0]" _ "[[98, 0], [97, 0]]"] h3 h4
  show ?thesis by blast
qed

text \<open>
  C4 as stated fails for \<^verbatim>\<open>db_insert_uniqmap\<close>: the first call on \<^verbatim>\<open>"a"\<close>
  assigns and returns id 1, the second call returns 0.
\<close>

theorem uniqmap_second_call_counterexample:
  "db_insert_uniqmap VISITORS [97, 0] sample_state
     = Inr (1, set_tbl 9 [([97], int_bytes 1)] sample_state)
   \<and> db_insert_uniqmap VISITORS [97, 0] (set_tbl 9 [([97], int_bytes 1)] sample_state)
     = Inr (0, set_tbl 9 [([97], int_bytes 1)] sample_state)"
  by (simp add: db_insert_uniqmap_def get_si32_init ins_si32_ai_init c_text_def)

subsection \<open>C9: interned ids and the not-found sentinel\<close>

lemma set_tbl_put_subset: "set (tbl_put k d t) \<subseteq> insert (k, d) (set t)"
  by (induction t) (auto split: if_splits)

lemma ids_ok_put: "ids_ok t \<Longrightarrow> 1 \<le> sint v \<Longrightarrow> ids_ok (tbl_put k (int_bytes v) t)"
  using set_tbl_put_subset [of k "int_bytes v" t]
  by (auto simp: ids_ok_def list_all_iff)

lemma ids_ok_lookup: "ids_ok t \<Longrightarrow> map_of t kb = Some b \<Longrightarrow> 1 \<le> sint (deref_int b)"
  by (auto simp: ids_ok_def list_all_iff dest: map_of_SomeD)

lemma sint_minus_one: "sint (- 1 :: 32 word) = - 1"
  by simp

lemma ids_ok_not_sentinel: "ids_ok t \<Longrightarrow> map_of t kb = Some b \<Longrightarrow> deref_int b \<noteq> - 1"
  using ids_ok_lookup [of t kb b] by (auto simp: sint_minus_one)

lemma next_id_positive:
  "length t < 2 ^ 31 - 1 \<Longrightarrow> 1 \<le> sint (word_of_nat (length t + 1) :: 32 word)"
  using sint_of_nat_small [of "length t + 1"] by simp

lemma intern_ids_ok:
  assumes "initialized s" and "ids_ok (tbl s d)" and "length (tbl s d) < 2 ^ 31 - 1"
  shows "get_db s m MTRC_KEYMAP = Some d \<Longrightarrow>
           \<exists>v s'. db_insert_keymap m k s = Inr (v, s') \<and> 1 \<le> sint v \<and> ids_ok (tbl s' d)"
    and "ht_unique_keys s = Some d \<Longrightarrow>
           \<exists>v s'. db_insert_unique_key k s = Inr (v, s') \<and> 1 \<le> sint v \<and> ids_ok (tbl s' d)"
    and "ht_agent_keys s = Some d \<Longrightarrow>
           \<exists>v s'. db_insert_agent_key k s = Inr (v, s') \<and> 1 \<le> sint v \<and> ids_ok (tbl s' d)"
    and "get_db s m MTRC_UNIQMAP = Some d \<Longrightarrow>
           \<exists>v s'. db_insert_uniqmap m k s = Inr (v, s') \<and> ids_ok (tbl s' d)"
proof -
  show "\<exists>v s'. db_insert_keymap m k s = Inr (v, s') \<and> 1 \<le> sint v \<and> ids_ok (tbl s' d)"
    if p: "get_db s m MTRC_KEYMAP = Some d"
  proof (cases "map_of (tbl s d) (c_text k)")
    case None
    from intern_absent(1) [OF assms(1) p None] show ?thesis
      using assms next_id_positive [OF assms(3)] ids_ok_put by (simp del: of_nat_add of_nat_Suc)
  next
    case (Some b)
    from intern_known(1) [OF assms(1) Some ids_ok_not_sentinel [OF assms(2) Some] p]
    show ?thesis using assms(2) ids_ok_lookup [OF assms(2) Some] by simp
  qed
  show "\<exists>v s'. db_insert_unique_key k s = Inr (v, s') \<and> 1 \<le> sint v \<and> ids_ok (tbl s' d)"
    if p: "ht_unique_keys s = Some d"
  proof (cases "map_of (tbl s d) (c_text k)")
    case None
    from intern_absent(2) [OF assms(1) p None] show ?thesis
      using assms next_id_positive [OF assms(3)] ids_ok_put by (simp del: of_nat_add of_nat_Suc)
  next
    case (Some b)
    from intern_known(2) [OF assms(1) Some ids_ok_not_sentinel [OF assms(2) Some] p]
    show ?thesis using assms(2) ids_ok_lookup [OF assms(2) Some] by simp
  qed
  show "\<exists>v s'. db_insert_agent_key k s = Inr (v, s') \<and> 1 \<le> sint v \<and> ids_ok (tbl s' d)"
    if p: "ht_agent_keys s = Some d"
  proof (cases "map_of (tbl s d) (c_text k)")
    case None
    from intern_absent(3) [OF assms(1) p None] show ?thesis
      using assms next_id_positive [OF assms(3)] ids_ok_put by (simp del: of_nat_add of_nat_Suc)
  next
    case (Some b)
    from intern_known(3) [OF assms(1) Some ids_ok_not_sentinel [OF assms(2) Some] p]
    show ?thesis using assms(2) ids_ok_lookup [OF assms(2) Some] by simp
  qed
  show "\<exists>v s'. db_insert_uniqmap m k s = Inr (v, s') \<and> ids_ok (tbl s' d)"
    if p: "get_db s m MTRC_UNIQMAP = Some d"
  proof (cases "map_of (tbl s d) (c_text k)")
    case None
    from intern_absent(4) [OF assms(1) p None] show ?thesis
      using assms next_id_positive [OF assms(3)] ids_ok_put by (simp del: of_nat_add of_nat_Suc)
  next
    case (Some b)
    from intern_known(4) [OF assms(1) Some ids_ok_not_sentinel [OF assms(2) Some] p]
    show ?thesis using assms(2) by simp
  qed
qed

text \<open>
  C9, amended. While an interning table holds fewer than \<open>2 ^ 31 - 1\<close> entries, every id
  an interning operation stores into it is at least 1: if all values of the table are at
  least 1 before a call of \<^verbatim>\<open>db_insert_keymap\<close>, \<^verbatim>\<open>db_insert_unique_key\<close>,
  \<^verbatim>\<open>db_insert_agent_key\<close> or \<^verbatim>\<open>db_insert_uniqmap\<close>, they are so after it (and the id
  the first three return is at least 1); the empty table is such a table. In such a table
  the string-keyed lookup returns \<open>-1\<close> exactly for the absent keys.
\<close>

theorem interned_ids_positive_amended:
  assumes "initialized s" and "ids_ok (tbl s d)" and "length (tbl s d) < 2 ^ 31 - 1"
  shows "(get_db s m MTRC_KEYMAP = Some d \<longrightarrow>
            (\<exists>v s'. db_insert_keymap m k s = Inr (v, s') \<and> 1 \<le> sint v \<and> ids_ok (tbl s' d)))
       \<and> (ht_unique_keys s = Some d \<longrightarrow>
            (\<exists>v s'. db_insert_unique_key k s = Inr (v, s') \<and> 1 \<le> sint v \<and> ids_ok (tbl s' d)))
       \<and> (ht_agent_keys s = Some d \<longrightarrow>
            (\<exists>v s'. db_insert_agent_key k s = Inr (v, s') \<and> 1 \<le> sint v \<and> ids_ok (tbl s' d)))
       \<and> (get_db s m MTRC_UNIQMAP = Some d \<longrightarrow>
            (\<exists>v s'. db_insert_uniqmap m k s = Inr (v, s') \<and> ids_ok (tbl s' d)))
       \<and> (get_si32 (Some d) k s = Inr (- 1, s) \<longleftrightarrow> map_of (tbl s d) (c_text k) = None)
       \<and> ids_ok []"
proof -
  have "get_si32 (Some d) k s = Inr (- 1, s) \<longleftrightarrow> map_of (tbl s d) (c_text k) = None"
    using assms(1) ids_ok_not_sentinel [OF assms(2), of "c_text k"]
    by (auto simp: get_si32_init split: option.splits)
  moreover have "ids_ok []" by (simp add: ids_ok_def)
  ultimately show ?thesis using intern_ids_ok [OF assms] by blast
qed

text \<open>The witness: interning \<^verbatim>\<open>"a"\<close> into the empty keymap table.\<close>

theorem interned_ids_positive_amended_witness:
  "\<exists>v s'. db_insert_keymap VISITORS [97, 0] sample_state = Inr (v, s') \<and> 1 \<le> sint v
          \<and> ids_ok (tbl s' 6)"
proof -
  have h1: "initialized sample_state" by simp
  have h2: "ids_ok (tbl sample_state 6)" by (simp add: ids_ok_def)
  have h3: "length (tbl sample_state 6) < 2 ^ 31 - 1" by simp
  have h4: "get_db sample_state VISITORS MTRC_KEYMAP = Some 6" by simp
  from interned_ids_positive_amended [OF h1 h2 h3, of VISITORS "[97, 0]"] h4
  show ?thesis by blast
qed

text \<open>
  C9 as stated fails once the table holds \<open>2 ^ 31 - 1\<close> entries: all ids in it are at
  least 1, and the next key gets \<open>2 ^ 31\<close> converted to \<^verbatim>\<open>int\<close>, a negative id.
\<close>

theorem interned_id_negative_counterexample:
  "ids_ok (tbl big_state 6)
   \<and> db_insert_keymap VISITORS [97, 0] big_state
       = Inr (- 2147483648,
              set_tbl 6 (tbl_put [97] (int_bytes (- 2147483648)) (run_of_b (2 ^ 31 - 1))) big_state)
   \<and> sint (- 2147483648 :: 32 word) < 1"
proof -
  have i: "initialized big_state" by (simp add: big_state_def)
  have t: "tbl big_state 6 = run_of_b (2 ^ 31 - 1)" by (simp add: big_state_def)
  have g: "get_db big_state VISITORS MTRC_KEYMAP = Some 6" by (simp add: big_state_def)
  have c: "c_text [97, 0] = [97]" by (simp add: c_text_def)
  have a: "map_of (tbl big_state 6) (c_text [97, 0]) = None"
    unfolding t c by (rule run_of_b_no_a)
  have "ids_ok (tbl big_state 6)" unfolding t by (rule ids_ok_run_of_b) simp
  moreover have "db_insert_keymap VISITORS [97, 0] big_state
       = Inr (- 2147483648,
              set_tbl 6 (tbl_put [97] (int_bytes (- 2147483648)) (run_of_b (2 ^ 31 - 1))) big_state)"
    using intern_absent(1) [OF i g a] unfolding t c length_run_of_b big_id .
  moreover have "sint (- 2147483648 :: 32 word) < 1" by simp
  ultimately show ?thesis by blast
qed

subsection \<open>C8: string keys and string values\<close>

lemma strlen_le: "strlen k \<le> length k"
  by (simp add: strlen_def length_takeWhile_le)

lemma length_c_text [simp]: "length (c_text k) = strlen k"
  by (simp add: c_text_def strlen_def)

lemma c_text_no_zero: "0 \<notin> set (c_text k)"
  by (auto simp: c_text_def dest: set_takeWhileD)

lemma take_with_terminator:
  "0 \<in> set v \<Longrightarrow> take (strlen v + 1) v = c_text v @ [0]"
proof (induction v)
  case Nil
  then show ?case by simp
next
  case (Cons a v)
  then show ?case by (cases "a = 0") (auto simp: strlen_def c_text_def)
qed

lemma c_text_terminated [simp]: "c_text (c_text w @ [0]) = c_text w"
  by (induction w) (auto simp: c_text_def)

lemma xstrdup_stored [simp]: "xstrdup (c_text w @ [0]) = c_text w @ [0]"
  by (simp add: xstrdup_def)

lemma same_key_iff_same_length:
  assumes "n \<le> length k"
  shows "val_bytes \<lparr>mv_size = n, mv_data = k\<rparr> = val_bytes \<lparr>mv_size = strlen k, mv_data = k\<rparr>
           \<longleftrightarrow> n = strlen k"
proof
  assume "val_bytes \<lparr>mv_size = n, mv_data = k\<rparr> = val_bytes \<lparr>mv_size = strlen k, mv_data = k\<rparr>"
  then have "length (take n k) = length (take (strlen k) k)" by (simp add: val_bytes_def)
  then show "n = strlen k" using assms strlen_le [of k] by simp
qed simp

text \<open>
  C8. The writers with a string key (\<^verbatim>\<open>ins_si32\<close>, \<^verbatim>\<open>inc_su64\<close>) hand the engine
  exactly the bytes of the text, \<^verbatim>\<open>strlen\<close> many and none of them the terminator, and
  the entry is stored under these bytes; the writer with a string value
  (\<^verbatim>\<open>ins_is32\<close>) stores the text with its terminator, \<^verbatim>\<open>strlen\<close> plus one bytes.
  A lookup key of \<open>n\<close> bytes at the same address is the key written if and only if
  \<open>n\<close> is the \<^verbatim>\<open>strlen\<close> the writer used, and in a table holding this one key the
  engine finds an entry exactly then.
\<close>

theorem string_codec_lengths:
  assumes "initialized s"
  shows "val_bytes \<lparr>mv_size = strlen k, mv_data = k\<rparr> = c_text k
       \<and> length (c_text k) = strlen k \<and> 0 \<notin> set (c_text k)
       \<and> (\<exists>s'. ins_si32 (Some d) k v s = Inr (0, s')
              \<and> map_of (tbl s' d) (c_text k) = Some (int_bytes v)
              \<and> get_si32 (Some d) k s' = Inr (v, s'))
       \<and> (\<exists>s' b. inc_su64 (Some d) k u s = Inr (0, s')
              \<and> map_of (tbl s' d) (c_text k) = Some (u64_bytes b))
       \<and> (0 \<in> set w \<longrightarrow>
            (\<exists>s'. ins_is32 (Some d) i w s = Inr (0, s')
              \<and> map_of (tbl s' d) (int_bytes i) = Some (c_text w @ [0])
              \<and> length (c_text w @ [0]) = strlen w + 1
              \<and> get_is32 (Some d) i s' = Inr (Some (c_text w @ [0]), s')))
       \<and> (n \<le> length k \<longrightarrow>
            (val_bytes \<lparr>mv_size = n, mv_data = k\<rparr> = val_bytes \<lparr>mv_size = strlen k, mv_data = k\<rparr>
               \<longleftrightarrow> n = strlen k))
       \<and> (n \<le> length k \<longrightarrow> tbl s d = [] \<longrightarrow>
            (\<exists>s' txn. ins_si32 (Some d) k v s = Inr (0, s') \<and> txn_begin s' = Inr txn
               \<and> (fst (mdb_get txn d \<lparr>mv_size = n, mv_data = k\<rparr>) = 0 \<longleftrightarrow> n = strlen k)))"
proof -
  obtain st where st: "db_storage s = Some st" using assms by (auto simp: initialized_def)
  let ?s' = "set_tbl d (tbl_put (c_text k) (int_bytes v) (tbl s d)) s"
  have a: "ins_si32 (Some d) k v s = Inr (0, ?s')" using assms by (rule ins_si32_init)
  have b: "map_of (tbl ?s' d) (c_text k) = Some (int_bytes v)" using assms by simp
  have c: "get_si32 (Some d) k ?s' = Inr (v, ?s')" using assms b by (simp add: get_si32_init)
  have c1: "val_bytes \<lparr>mv_size = strlen k, mv_data = k\<rparr> = c_text k" by simp
  have c2: "length (c_text k) = strlen k" by simp
  have c3: "0 \<notin> set (c_text k)" by (rule c_text_no_zero)
  have c4: "\<exists>s'. ins_si32 (Some d) k v s = Inr (0, s')
              \<and> map_of (tbl s' d) (c_text k) = Some (int_bytes v)
              \<and> get_si32 (Some d) k s' = Inr (v, s')"
    using a b c by blast
  have c5: "\<exists>s' b. inc_su64 (Some d) k u s = Inr (0, s')
              \<and> map_of (tbl s' d) (c_text k) = Some (u64_bytes b)"
    using assms by (simp add: inc_su64_init)
  have c6: "0 \<in> set w \<longrightarrow>
            (\<exists>s'. ins_is32 (Some d) i w s = Inr (0, s')
              \<and> map_of (tbl s' d) (int_bytes i) = Some (c_text w @ [0])
              \<and> length (c_text w @ [0]) = strlen w + 1
              \<and> get_is32 (Some d) i s' = Inr (Some (c_text w @ [0]), s'))"
  proof
    assume z: "0 \<in> set w"
    show "\<exists>s'. ins_is32 (Some d) i w s = Inr (0, s')
              \<and> map_of (tbl s' d) (int_bytes i) = Some (c_text w @ [0])
              \<and> length (c_text w @ [0]) = strlen w + 1
              \<and> get_is32 (Some d) i s' = Inr (Some (c_text w @ [0]), s')"
      using assms take_with_terminator [OF z]
      by (simp add: ins_is32_init get_is32_init)
  qed
  have c7: "n \<le> length k \<longrightarrow>
            (val_bytes \<lparr>mv_size = n, mv_data = k\<rparr> = val_bytes \<lparr>mv_size = strlen k, mv_data = k\<rparr>
               \<longleftrightarrow> n = strlen k)"
    using same_key_iff_same_length [of n k] by blast
  have c8: "n \<le> length k \<longrightarrow> tbl s d = [] \<longrightarrow>
            (\<exists>s' txn. ins_si32 (Some d) k v s = Inr (0, s') \<and> txn_begin s' = Inr txn
               \<and> (fst (mdb_get txn d \<lparr>mv_size = n, mv_data = k\<rparr>) = 0 \<longleftrightarrow> n = strlen k))"
  proof (intro impI)
    assume n: "n \<le> length k" and t: "tbl s d = []"
    let ?txn = "env st\<lparr>me_dbs := (me_dbs (env st))(d := [(c_text k, int_bytes v)])\<rparr>"
    have tp: "tbl_put (c_text k) (int_bytes v) (tbl s d) = [(c_text k, int_bytes v)]" by (simp add: t)
    have tb: "txn_begin ?s' = Inr ?txn"
      unfolding tp using st by (simp add: txn_begin_def set_tbl_def mdb_txn_begin_def)
    have ke: "(take n k = c_text k) = (n = strlen k)"
      using same_key_iff_same_length [OF n]
      by (simp add: val_bytes_def c_text_def strlen_def take_length_takeWhile)
    have "fst (mdb_get ?txn d \<lparr>mv_size = n, mv_data = k\<rparr>) = 0 \<longleftrightarrow> n = strlen k"
      using ke by (simp add: val_bytes_def)
    with a tb show "\<exists>s' txn. ins_si32 (Some d) k v s = Inr (0, s') \<and> txn_begin s' = Inr txn
               \<and> (fst (mdb_get txn d \<lparr>mv_size = n, mv_data = k\<rparr>) = 0 \<longleftrightarrow> n = strlen k)"
      by blast
  qed
  show ?thesis by (intro conjI; fact)
qed

text \<open>
  The witness: the value \<^verbatim>\<open>"b"\<close> is stored as the two bytes of its text and
  terminator; the key \<^verbatim>\<open>"a"\<close> is found with length 1 and not with length 2.
\<close>

theorem string_codec_lengths_witness:
  "(\<exists>s'. ins_is32 (Some 8) 1 [98, 0] sample_state = Inr (0, s')
        \<and> map_of (tbl s' 8) (int_bytes 1) = Some [98, 0])
   \<and> (\<exists>s' txn. ins_si32 (Some 6) [97, 0] 1 sample_state = Inr (0, s') \<and> txn_begin s' = Inr txn
        \<and> fst (mdb_get txn 6 \<lparr>mv_size = 1, mv_data = [97, 0]\<rparr>) = 0
        \<and> fst (mdb_get txn 6 \<lparr>mv_size = 2, mv_data = [97, 0]\<rparr>) \<noteq> 0)"
proof -
  have h1: "initialized sample_state" by simp
  have h2: "(0 :: byte) \<in> set [98, 0]" by simp
  have h3: "(1 :: nat) \<le> length [97, 0 :: byte]" "(2 :: nat) \<le> length [97, 0 :: byte]" by simp_all
  have h4: "tbl sample_state 6 = []" by simp
  have h5: "strlen [97, 0] = 1" by (simp add: strlen_def)
  have h6: "c_text [98, 0] @ [0] = [98, 0]" by (simp add: c_text_def)
  from string_codec_lengths [OF h1, where w = "[98, 0]" and d = 8 and i = 1] h2
  have "\<exists>s'. ins_is32 (Some 8) 1 [98, 0] sample_state = Inr (0, s')
        \<and> map_of (tbl s' 8) (int_bytes 1) = Some (c_text [98, 0] @ [0])"
    by blast
  then have v: "\<exists>s'. ins_is32 (Some 8) 1 [98, 0] sample_state = Inr (0, s')
        \<and> map_of (tbl s' 8) (int_bytes 1) = Some [98, 0]"
    unfolding h6 .
  from string_codec_lengths [OF h1, where k = "[97, 0]" and n = 1 and d = 6 and v = 1] h3(1) h4
  obtain s1 t1 where k1: "ins_si32 (Some 6) [97, 0] 1 sample_state = Inr (0, s1)"
    "txn_begin s1 = Inr t1"
    "fst (mdb_get t1 6 \<lparr>mv_size = 1, mv_data = [97, 0]\<rparr>) = 0 \<longleftrightarrow> 1 = strlen [97, 0]"
    by blast
  from string_codec_lengths [OF h1, where k = "[97, 0]" and n = 2 and d = 6 and v = 1] h3(2) h4
  obtain s2 t2 where k2: "ins_si32 (Some 6) [97, 0] 1 sample_state = Inr (0, s2)"
    "txn_begin s2 = Inr t2"
    "fst (mdb_get t2 6 \<lparr>mv_size = 2, mv_data = [97, 0]\<rparr>) = 0 \<longleftrightarrow> 2 = strlen [97, 0]"
    by blast
  from k1(1) k2(1) have s: "s2 = s1" by simp
  with k1(2) k2(2) have t: "t2 = t1" by simp
  from k1(3) have f1: "fst (mdb_get t1 6 \<lparr>mv_size = 1, mv_data = [97, 0]\<rparr>) = 0"
    unfolding h5 by blast
  from k2(3) have f2: "fst (mdb_get t1 6 \<lparr>mv_size = 2, mv_data = [97, 0]\<rparr>) \<noteq> 0"
    unfolding h5 t by (simp del: mdb_get_eq)
  from v k1(1,2) f1 f2 show ?thesis by blast
qed

subsection \<open>C7: accessors without a table\<close>

lemma init_tables_other:
  "init_tables txn m arr = Inr (arr', txn') \<Longrightarrow> m' \<noteq> m \<Longrightarrow> modules arr' m' = modules arr m'"
  by (auto simp: init_tables_def split: sum.splits)

lemma init_modules_other:
  "init_modules ml txn arr = Inr (arr', txn') \<Longrightarrow> m' \<notin> set ml \<Longrightarrow> modules arr' m' = modules arr m'"
proof (induction ml arbitrary: txn arr)
  case Nil
  then show ?case by simp
next
  case (Cons m ml)
  from Cons.prems(1) obtain arr1 txn1 where
    1: "init_tables txn m (arr\<lparr>modules := (modules arr)(m := (modules arr m)\<lparr>module := m\<rparr>)\<rparr>) = Inr (arr1, txn1)"
    and 2: "init_modules ml txn1 arr1 = Inr (arr', txn')"
    by (auto split: sum.splits)
  have "modules arr' m' = modules arr1 m'" using Cons.IH [OF 2] Cons.prems(2) by simp
  also have "\<dots> = modules (arr\<lparr>modules := (modules arr)(m := (modules arr m)\<lparr>module := m\<rparr>)\<rparr>) m'"
    using init_tables_other [OF 1, of m'] Cons.prems(2) by simp
  also have "\<dots> = modules arr m'" using Cons.prems(2) by simp
  finally show ?case .
qed

lemma ginit_storage_unregistered:
  assumes "ginit_storage ml db_path fs disk s0 = Inr s" and "m \<notin> set ml"
  shows "get_db s m mt = None" and "initialized s"
proof -
  from assms(1) obtain e0 arr txn5 txn6 where
    i: "init_modules ml txn5 (new_storage e0) = Inr (arr, txn6)"
    and s: "db_storage s = Some (arr\<lparr>env := txn6\<rparr>)"
    by (auto simp: ginit_storage_def Let_def txn_commit_def mdb_txn_commit_def
          split: sum.splits prod.splits if_splits)
  have "modules arr m = modules (new_storage e0) m"
    using init_modules_other [OF i assms(2)] .
  then show "get_db s m mt = None"
    using s by (simp add: get_db_def new_storage_def get_db_loop_zeroed)
  show "initialized s" using s by (simp add: initialized_def)
qed

lemma get_db_uninitialized [simp]: "get_db uninitialized m mt = None"
  by (simp add: get_db_def uninitialized_def)

text \<open>
  Before \<^verbatim>\<open>ginit_storage\<close> the export does not return: \<^verbatim>\<open>db_parse_raw_data\<close>
  reads \<^verbatim>\<open>db_storage->env\<close> through the null pointer.
\<close>

lemma db_parse_raw_data_uninitialized: "db_parse_raw_data desc m uninitialized = Inl SIGSEGV"
  by (simp add: db_parse_raw_data_def uninitialized_def)


lemma unavailable_module:
  assumes "\<And>mt. get_db s m mt = None"
  shows "db_insert_keymap m k s = Inr (- 1, s)
       \<and> db_insert_uniqmap m k s = Inr (- 1, s)
       \<and> db_insert_datamap m i v s = Inr (- 1, s)
       \<and> db_insert_rootmap m i v s = Inr (- 1, s)
       \<and> db_insert_root m i j s = Inr (- 1, s)
       \<and> db_insert_hits m i j s = Inr (- 1, s)
       \<and> db_insert_visitor m i j s = Inr (- 1, s)
       \<and> db_insert_bw m i u s = Inr (- 1, s)
       \<and> db_insert_cumts m i u s = Inr (- 1, s)
       \<and> db_insert_maxts m i u s = Inr (- 1, s)
       \<and> db_insert_method m i v s = Inr (- 1, s)
       \<and> db_insert_protocol m i v s = Inr (- 1, s)
       \<and> db_insert_meta_data m k u s = Inr (- 1, s)
       \<and> db_get_hits m i s = Inr (- 1, s)
       \<and> db_get_visitors m i s = Inr (- 1, s)
       \<and> db_get_datamap m i s = Inr (None, s)
       \<and> db_get_method m i s = Inr (None, s)
       \<and> db_get_protocol m i s = Inr (None, s)
       \<and> db_get_root m i s = Inr (None, s)
       \<and> db_get_bw m i s = Inr (0, s)
       \<and> db_get_cumts m i s = Inr (0, s)
       \<and> db_get_maxts m i s = Inr (0, s)
       \<and> db_get_size_uniqmap m s = Inr (0, s)"
  by (simp add: assms db_get_bw_def db_get_cumts_def db_get_datamap_def db_get_hits_def db_get_maxts_def db_get_method_def db_get_protocol_def db_get_root_def db_get_size_uniqmap_def db_get_visitors_def db_insert_bw_def db_insert_cumts_def db_insert_datamap_def db_insert_hits_def db_insert_keymap_def db_insert_maxts_def db_insert_meta_data_def db_insert_method_def db_insert_protocol_def db_insert_root_def db_insert_rootmap_def db_insert_uniqmap_def db_insert_visitor_def)

text \<open>
  C7, amended. Where the tables of a module resolve to null, every accessor of the module
  returns without ending the process and leaves the state as it is: the string getters
  return null, the \<^verbatim>\<open>int\<close>-returning getters and all inserts return \<open>-1\<close>, the
  \<^verbatim>\<open>uint64_t\<close> getters (\<^verbatim>\<open>db_get_bw\<close>, \<^verbatim>\<open>db_get_cumts\<close>, \<^verbatim>\<open>db_get_maxts\<close>)
  and \<^verbatim>\<open>db_get_size_uniqmap\<close> return 0, and once storage is initialized the export
  returns null. The accessors of a global table return \<open>-1\<close> or null where that table
  pointer is null. Tables resolve to null, and the global table pointers are null, before
  \<^verbatim>\<open>ginit_storage\<close>; the tables of a module that is not in the module list resolve
  to null after it.
\<close>

theorem unavailable_signals_amended:
  assumes "\<forall>mt. get_db s m mt = None"
  shows "db_insert_keymap m k s = Inr (- 1, s)
       \<and> db_insert_uniqmap m k s = Inr (- 1, s)
       \<and> db_insert_datamap m i v s = Inr (- 1, s)
       \<and> db_insert_rootmap m i v s = Inr (- 1, s)
       \<and> db_insert_root m i j s = Inr (- 1, s)
       \<and> db_insert_hits m i j s = Inr (- 1, s)
       \<and> db_insert_visitor m i j s = Inr (- 1, s)
       \<and> db_insert_bw m i u s = Inr (- 1, s)
       \<and> db_insert_cumts m i u s = Inr (- 1, s)
       \<and> db_insert_maxts m i u s = Inr (- 1, s)
       \<and> db_insert_method m i v s = Inr (- 1, s)
       \<and> db_insert_protocol m i v s = Inr (- 1, s)
       \<and> db_insert_meta_data m k u s = Inr (- 1, s)
       \<and> db_get_hits m i s = Inr (- 1, s)
       \<and> db_get_visitors m i s = Inr (- 1, s)
       \<and> db_get_datamap m i s = Inr (None, s)
       \<and> db_get_method m i s = Inr (None, s)
       \<and> db_get_protocol m i s = Inr (None, s)
       \<and> db_get_root m i s = Inr (None, s)
       \<and> db_get_bw m i s = Inr (0, s)
       \<and> db_get_cumts m i s = Inr (0, s)
       \<and> db_get_maxts m i s = Inr (0, s)
       \<and> db_get_size_uniqmap m s = Inr (0, s)
       \<and> (db_storage s \<noteq> None \<longrightarrow> db_parse_raw_data desc m s = Inr (None, s))
       \<and> (ht_unique_keys s = None \<longrightarrow> db_insert_unique_key k s = Inr (- 1, s))
       \<and> (ht_agent_keys s = None \<longrightarrow> db_insert_agent_key k s = Inr (- 1, s))
       \<and> (ht_agent_vals s = None \<longrightarrow> db_insert_agent_value i v s = Inr (- 1, s))
       \<and> (ht_hostnames s = None \<longrightarrow> db_get_hostname k s = Inr (None, s))
       \<and> get_db uninitialized m' mt' = None
       \<and> ht_unique_keys uninitialized = None \<and> ht_agent_keys uninitialized = None
       \<and> ht_agent_vals uninitialized = None \<and> ht_hostnames uninitialized = None
       \<and> (ginit_storage ml db_path fs disk s0 = Inr s1 \<longrightarrow> m' \<notin> set ml
            \<longrightarrow> get_db s1 m' mt' = None)"
proof -
  have none: "\<And>mt. get_db s m mt = None" using assms by simp
  have exp: "db_storage s \<noteq> None \<longrightarrow> db_parse_raw_data desc m s = Inr (None, s)"
  proof
    assume "db_storage s \<noteq> None"
    then obtain st where "db_storage s = Some st" by auto
    then show "db_parse_raw_data desc m s = Inr (None, s)"
      using none [of MTRC_DATAMAP] none [of MTRC_HITS]
      by (cases m) (simp_all add: db_parse_raw_data_def mdb_env_sync_def parse_raw_str_data_def
            parse_raw_num_data_def)
  qed
  have g1: "ht_unique_keys s = None \<longrightarrow> db_insert_unique_key k s = Inr (- 1, s)"
    by (simp add: db_insert_unique_key_def)
  have g2: "ht_agent_keys s = None \<longrightarrow> db_insert_agent_key k s = Inr (- 1, s)"
    by (simp add: db_insert_agent_key_def)
  have g3: "ht_agent_vals s = None \<longrightarrow> db_insert_agent_value i v s = Inr (- 1, s)"
    by (simp add: db_insert_agent_value_def)
  have g4: "ht_hostnames s = None \<longrightarrow> db_get_hostname k s = Inr (None, s)"
    by (simp add: db_get_hostname_def)
  have u: "get_db uninitialized m' mt' = None" "ht_unique_keys uninitialized = None"
    "ht_agent_keys uninitialized = None" "ht_agent_vals uninitialized = None"
    "ht_hostnames uninitialized = None"
    by (simp_all add: uninitialized_def get_db_def)
  have r: "ginit_storage ml db_path fs disk s0 = Inr s1 \<longrightarrow> m' \<notin> set ml
            \<longrightarrow> get_db s1 m' mt' = None"
    using ginit_storage_unregistered(1) by blast
  from unavailable_module [of s m, OF none] exp g1 g2 g3 g4 u r show ?thesis by blast
qed

text \<open>
  The witness: accessors of \<^verbatim>\<open>VISITORS\<close> before initialization, and accessors of a
  module that was not registered, after it.
\<close>

theorem unavailable_signals_amended_witness:
  "db_insert_hits VISITORS 1 1 uninitialized = Inr (- 1, uninitialized)
   \<and> db_get_visitors VISITORS 1 uninitialized = Inr (- 1, uninitialized)
   \<and> db_get_datamap VISITORS 1 uninitialized = Inr (None, uninitialized)
   \<and> db_get_cumts VISITORS 1 uninitialized = Inr (0, uninitialized)
   \<and> db_insert_agent_key [97, 0] uninitialized = Inr (- 1, uninitialized)
   \<and> db_insert_hits (Module 0) 1 1 sample_state = Inr (- 1, sample_state)
   \<and> db_get_root (Module 0) 1 sample_state = Inr (None, sample_state)
   \<and> db_parse_raw_data True (Module 0) sample_state = Inr (None, sample_state)
   \<and> get_db sample_state (Module 0) MTRC_HITS = None"
proof -
  have h1: "\<forall>mt. get_db uninitialized VISITORS mt = None" by simp
  have h2: "\<forall>mt. get_db sample_state (Module 0) mt = None" by simp
  have h3: "db_storage sample_state \<noteq> None" by (simp add: sample_state_def)
  have h4: "ht_agent_keys uninitialized = None" by (simp add: uninitialized_def)
  have h5: "Module 0 \<notin> set [VISITORS]" by simp
  from unavailable_signals_amended [OF h1, where i = 1 and j = 1 and k = "[97, 0]"] h4
  have a: "db_insert_hits VISITORS 1 1 uninitialized = Inr (- 1, uninitialized)"
    "db_get_visitors VISITORS 1 uninitialized = Inr (- 1, uninitialized)"
    "db_get_datamap VISITORS 1 uninitialized = Inr (None, uninitialized)"
    "db_get_cumts VISITORS 1 uninitialized = Inr (0, uninitialized)"
    "db_insert_agent_key [97, 0] uninitialized = Inr (- 1, uninitialized)"
    by blast+
  from unavailable_signals_amended [OF h2, where i = 1 and j = 1 and desc = True
      and ml = "[VISITORS]" and db_path = None and fs = tmp_fs and disk = tmp_disk
      and ?s0.0 = uninitialized and ?s1.0 = sample_state and m' = "Module 0" and mt' = MTRC_HITS]
    h3 h5 sample_init
  have b: "db_insert_hits (Module 0) 1 1 sample_state = Inr (- 1, sample_state)"
    "db_get_root (Module 0) 1 sample_state = Inr (None, sample_state)"
    "db_parse_raw_data True (Module 0) sample_state = Inr (None, sample_state)"
    "get_db sample_state (Module 0) MTRC_HITS = None"
    by blast+
  from a b show ?thesis by blast
qed

text \<open>
  C7 as stated fails for the accessors that return an unsigned count: before
  initialization \<^verbatim>\<open>db_get_bw\<close> and \<^verbatim>\<open>db_get_size_uniqmap\<close> return 0, not
  \<open>-1\<close>.
\<close>

theorem unavailable_not_uniform_counterexample:
  "db_get_bw VISITORS 1 uninitialized = Inr (0, uninitialized)
   \<and> (0 :: 64 word) \<noteq> - 1
   \<and> db_get_size_uniqmap VISITORS uninitialized = Inr (0, uninitialized)
   \<and> (0 :: 32 word) \<noteq> - 1"
  by (simp add: db_get_bw_def db_get_size_uniqmap_def)

end
